theory Spec2Isabelle
  imports Main "HOL-Library.Word"
begin

unbundle bit_operations_syntax

chapter \<open>Kelemetry: a shallow embedding of the correlation pipeline\<close>

section \<open>Time\<close>

text \<open>
  A Go \<open>time.Time\<close> is modelled by its instant: nanoseconds since the Unix epoch, an
  unbounded \<open>int\<close>. A \<open>time.Duration\<close> is an \<open>int\<close> of nanoseconds; where the
  source converts to a 64-bit integer the wrap-around is written out.
\<close>

type_synonym time = int
type_synonym duration = int

definition Second :: duration where
  "Second = 1000000000"

definition Minute :: duration where
  "Minute = 60 * Second"

text \<open>The zero \<open>time.Time\<close> is January 1, year 1, 00:00:00 UTC.\<close>

definition zeroTime :: time where
  "zeroTime = - 62135596800 * Second"

definition IsZero :: "time \<Rightarrow> bool" where
  "IsZero t = (t = zeroTime)"

definition Before :: "time \<Rightarrow> time \<Rightarrow> bool" where
  "Before t u = (t < u)"

definition minDuration :: duration where
  "minDuration = - (2 ^ 63)"

definition maxDuration :: duration where
  "maxDuration = 2 ^ 63 - 1"

text \<open>\<open>t.Sub(u)\<close> saturates at the smallest and largest \<open>Duration\<close>.\<close>

definition Sub :: "time \<Rightarrow> time \<Rightarrow> duration" where
  "Sub t u = (if t - u < minDuration then minDuration
              else if maxDuration < t - u then maxDuration else t - u)"

section \<open>Audit messages and events\<close>

text \<open>
  \<open>auditv1.ObjectReference\<close>, \<open>metav1.Status\<close> and \<open>audit.Message\<close>, with the fields the
  code reads. A Go pointer that may be nil is an \<open>option\<close>.
\<close>

record ObjectReference =
  ref_Resource :: string
  ref_Namespace :: string
  ref_Name :: string
  ref_UID :: string
  ref_APIGroup :: string
  ref_APIVersion :: string
  ref_ResourceVersion :: string
  ref_Subresource :: string

record StatusCause =
  cause_Type :: string
  cause_Message :: string

record StatusDetails =
  details_Causes :: "StatusCause list"

record Status =
  status_Code :: int
  status_Reason :: string
  status_Message :: string
  status_Details :: "StatusDetails option"

record UserInfo =
  user_Username :: string

text \<open>
  \<open>ResponseObject\<close> is a \<open>*runtime.Unknown\<close> whose \<open>Raw\<close> byte slice may itself be nil:
  \<open>None\<close> is the nil pointer, \<open>Some None\<close> a nil \<open>Raw\<close>.
\<close>

record Message =
  msg_Cluster :: string
  msg_SourceAddr :: string
  msg_AuditID :: string
  msg_Stage :: string
  msg_Verb :: string
  msg_User :: UserInfo
  msg_ImpersonatedUser :: "UserInfo option"
  msg_UserAgent :: string
  msg_ObjectRef :: "ObjectReference option"
  msg_ResponseStatus :: "Status option"
  msg_ResponseObject :: "string option option"
  msg_RequestReceivedTimestamp :: time
  msg_StageTimestamp :: time

text \<open>
  Modelled from the spec: the verb constants of package \<open>audit\<close> (the spec's verb set
  \<open>{create, update, patch, delete}\<close>); the package is not among the sources.
\<close>

definition VerbCreate :: string where "VerbCreate = ''create''"
definition VerbUpdate :: string where "VerbUpdate = ''update''"
definition VerbDelete :: string where "VerbDelete = ''delete''"
definition VerbPatch :: string where "VerbPatch = ''patch''"

text \<open>\<open>auditv1.StageResponseComplete\<close>.\<close>

definition StageResponseComplete :: string where
  "StageResponseComplete = ''ResponseComplete''"

text \<open>\<open>metav1.PartialObjectMetadata\<close>, as far as the code reads it.\<close>

record PartialObjectMetadata =
  pom_APIVersion :: string
  pom_Kind :: string
  pom_Namespace :: string
  pom_Name :: string
  pom_UID :: string
  pom_ResourceVersion :: string

text \<open>\<open>schema.GroupVersionResource\<close> and \<open>util.ObjectRef\<close> (the raw body is a parameter).\<close>

record GroupVersionResource =
  gvr_Group :: string
  gvr_Version :: string
  gvr_Resource :: string

record 'j ObjectRef =
  obj_Cluster :: string
  obj_GroupVersionResource :: GroupVersionResource
  obj_Namespace :: string
  obj_Name :: string
  obj_Uid :: string
  obj_Raw :: "'j option"

text \<open>
  Modelled from the spec: the log types of package \<open>zconstants\<close>, one constructor for each
  constant the code names; the package is not among the sources.
\<close>

datatype LogType =
  LogTypeRealError
  | LogTypeRealVerbose
  | LogTypeKelemetryError
  | LogTypeObjectSnapshot
  | LogTypeObjectDiff
  | LogTypeEventMessage

datatype TagValue = TagString string | TagInt int | TagDuration duration

text \<open>
  Modelled from the spec: the \<open>Event\<close> of package \<open>aggregator/event\<close>,
  \<open>(field, title, startTime, endTime, tags, logs)\<close> with its builders \<open>NewEvent\<close>,
  \<open>WithEndTime\<close>, \<open>WithTag\<close> and \<open>Log\<close>; the package is not among the sources.
\<close>

record Event =
  ev_Field :: string
  ev_Title :: string
  ev_Time :: time
  ev_EndTime :: "time option"
  ev_TraceSource :: string
  ev_Tags :: "string \<rightharpoonup> TagValue"
  ev_Logs :: "(LogType \<times> string) list"

definition NewEvent :: "string \<Rightarrow> string \<Rightarrow> time \<Rightarrow> string \<Rightarrow> Event" where
  "NewEvent field title when traceSource =
     \<lparr>ev_Field = field, ev_Title = title, ev_Time = when, ev_EndTime = None,
      ev_TraceSource = traceSource, ev_Tags = Map.empty, ev_Logs = []\<rparr>"

definition WithEndTime :: "time \<Rightarrow> Event \<Rightarrow> Event" where
  "WithEndTime t event = event\<lparr>ev_EndTime := Some t\<rparr>"

definition WithTag :: "string \<Rightarrow> TagValue \<Rightarrow> Event \<Rightarrow> Event" where
  "WithTag name v event = event\<lparr>ev_Tags := (ev_Tags event)(name \<mapsto> v)\<rparr>"

definition Log :: "LogType \<Rightarrow> string \<Rightarrow> Event \<Rightarrow> Event" where
  "Log ty msg event = event\<lparr>ev_Logs := ev_Logs event @ [(ty, msg)]\<rparr>"

datatype LabeledError = LabelError (err_text: string) (err_label: string)

section \<open>Diff decorator (pkg/diff/decorator/decorator.go)\<close>

datatype cacheHitType =
  cacheHitTypeTrue
  | cacheHitTypeFalse
  | cacheHitTypeError
  | cacheHitTypeNoObjectRef
  | cacheHitTypeRawJsonDecode
  | cacheHitTypeNoop
  | cacheHitTypeFiltered
  | cacheHitTypeSameRv
  | cacheHitTypeUndecoratedVerb
  | cacheHitTypeUnsupportedVerb

text \<open>The metric label of each outcome: the string constants of the source.\<close>

fun cacheHitLabel :: "cacheHitType \<Rightarrow> string" where
  "cacheHitLabel cacheHitTypeTrue = ''true''"
| "cacheHitLabel cacheHitTypeFalse = ''false''"
| "cacheHitLabel cacheHitTypeError = ''failedRequest''"
| "cacheHitLabel cacheHitTypeNoObjectRef = ''noObjectRef''"
| "cacheHitLabel cacheHitTypeRawJsonDecode = ''rawJsonDecodeError''"
| "cacheHitLabel cacheHitTypeNoop = ''noopUpdate''"
| "cacheHitLabel cacheHitTypeFiltered = ''filtered''"
| "cacheHitLabel cacheHitTypeSameRv = ''sameRv''"
| "cacheHitLabel cacheHitTypeUndecoratedVerb = ''undecoratedVerb''"
| "cacheHitLabel cacheHitTypeUnsupportedVerb = ''unsupportedVerb''"

text \<open>\<open>diffcmp.Diff\<close> and \<open>diffcache.Patch\<close>, \<open>diffcache.Snapshot\<close>; \<open>'v\<close> is a JSON value.\<close>

record 'v Diff =
  diff_JsonPath :: string
  diff_Old :: 'v
  diff_New :: 'v

record 'v Patch =
  patch_InformerTime :: time
  patch_OldResourceVersion :: string
  patch_NewResourceVersion :: string
  patch_Redacted :: bool
  patch_DiffList :: "'v Diff list"

record Snapshot =
  snap_ResourceVersion :: string
  snap_Redacted :: bool
  snap_Value :: string

text \<open>
  What the decorator is given. The diff cache is an interface whose answer can change
  between two polls (the informer races with the audit event), so \<open>Fetch\<close> and
  \<open>FetchSnapshot\<close> take the number of the attempt. \<open>unmarshalPartial\<close> is
  \<open>json.Unmarshal\<close> into a \<open>*PartialObjectMetadata\<close> (the JSON \<open>null\<close> leaves the pointer
  nil), \<open>goSyntax\<close> is the \<open>%#v\<close> verb of \<open>fmt\<close>, \<open>VerbToSnapshotName\<close> the table of
  package \<open>diffcache\<close>, and \<open>ticks\<close> the number of backoff ticks that fire before the retry
  deadline \<open>stageTimestamp + fetchEventTimeout\<close>.
\<close>

record ('j, 'v) decorator_env =
  Fetch :: "nat \<Rightarrow> 'j ObjectRef \<Rightarrow> string \<Rightarrow> string option \<Rightarrow> LabeledError + 'v Patch option"
  FetchSnapshot :: "nat \<Rightarrow> 'j ObjectRef \<Rightarrow> string \<Rightarrow> LabeledError + Snapshot option"
  unmarshalPartial :: "string \<Rightarrow> string + PartialObjectMetadata option"
  goSyntax :: "'v \<Rightarrow> string"
  VerbToSnapshotName :: "string \<rightharpoonup> string"
  ticks :: nat

datatype 'j cache_call =
  CallFetch "'j ObjectRef" string "string option"
  | CallFetchSnapshot "'j ObjectRef" string

text \<open>
  The result of \<open>tryDecorate\<close>: its two return values, the event as the call leaves it,
  the calls made to the diff cache and the value observed by the retry-count histogram.
\<close>

record 'j decorate_result =
  dr_cacheHit :: cacheHitType
  dr_err :: "LabeledError option"
  dr_event :: Event
  dr_calls :: "'j cache_call list"
  dr_retryCount :: "nat option"

text \<open>
  Modelled from the spec: \<open>util.ObjectRefFromAudit\<close>, which is not among the sources; it
  fills the identity tuple \<open>(cluster, group, version, resource, namespace, name, uid)\<close>
  from the audit reference, as \<open>handleItem\<close> does by hand.
\<close>

definition ObjectRefFromAudit :: "ObjectReference \<Rightarrow> string \<Rightarrow> string \<Rightarrow> 'j ObjectRef" where
  "ObjectRefFromAudit ref cluster uid =
     \<lparr>obj_Cluster = cluster,
      obj_GroupVersionResource =
        \<lparr>gvr_Group = ref_APIGroup ref, gvr_Version = ref_APIVersion ref,
         gvr_Resource = ref_Resource ref\<rparr>,
      obj_Namespace = ref_Namespace ref, obj_Name = ref_Name ref, obj_Uid = uid,
      obj_Raw = None\<rparr>"

definition decoratesResource :: "Message \<Rightarrow> bool" where
  "decoratesResource message = (msg_Verb message \<noteq> VerbPatch)"

fun diffInfo :: "('v \<Rightarrow> string) \<Rightarrow> 'v Diff list \<Rightarrow> string" where
  "diffInfo fmt [] = ''''"
| "diffInfo fmt (d # ds) =
     (diff_JsonPath d @ '' '' @ fmt (diff_Old d) @ '' -> '' @ fmt (diff_New d) @ [CHR 0x0A])
       @ diffInfo fmt ds"

definition tryUpdateOnce ::
  "('j, 'v) decorator_env \<Rightarrow> nat \<Rightarrow> 'j ObjectRef \<Rightarrow> string \<Rightarrow> string option \<Rightarrow> Event \<Rightarrow> Message
    \<Rightarrow> bool \<times> LabeledError option \<times> Event" where
  "tryUpdateOnce env attempt object oldRv newRv event message =
     (case Fetch env attempt object oldRv newRv of
        Inl err \<Rightarrow> (False, Some err, event)
      | Inr None \<Rightarrow> (False, None, event)
      | Inr (Some patch) \<Rightarrow>
          if patch_Redacted patch
          then (True, None,
                Log LogTypeKelemetryError ''Sensitive object content has been redacted'' event)
          else
            (let informerLatency = Sub (patch_InformerTime patch) (msg_StageTimestamp message)
             in (True, None,
                 WithTag ''informer latency'' (TagDuration informerLatency)
                   (Log LogTypeObjectDiff (diffInfo (goSyntax env) (patch_DiffList patch)) event))))"

definition tryCreateDeleteOnce ::
  "('j, 'v) decorator_env \<Rightarrow> nat \<Rightarrow> 'j ObjectRef \<Rightarrow> string \<Rightarrow> Event
    \<Rightarrow> bool \<times> LabeledError option \<times> Event" where
  "tryCreateDeleteOnce env attempt object snapshotName event =
     (case FetchSnapshot env attempt object snapshotName of
        Inl err \<Rightarrow> (False, Some err, event)
      | Inr None \<Rightarrow> (False, None, event)
      | Inr (Some snapshot) \<Rightarrow>
          if \<not> snap_Redacted snapshot
          then (True, None, Log LogTypeObjectSnapshot (snap_Value snapshot) event)
          else (True, None, event))"

text \<open>
  \<open>wait.PollImmediateUntil\<close>: the condition runs once at once, and again at each tick of
  the backoff until it reports done or the retry context is over. The result is the number
  of attempts with what the last attempt returned.
\<close>

fun PollImmediateUntil ::
  "(nat \<Rightarrow> Event \<Rightarrow> bool \<times> LabeledError option \<times> Event) \<Rightarrow> nat \<Rightarrow> nat \<Rightarrow> Event
    \<Rightarrow> nat \<times> bool \<times> LabeledError option \<times> Event" where
  "PollImmediateUntil tryOnce attempt 0 event =
     (case tryOnce attempt event of (cacheHit, err, event') \<Rightarrow>
        (Suc attempt, cacheHit, err, event'))"
| "PollImmediateUntil tryOnce attempt (Suc remaining) event =
     (case tryOnce attempt event of (cacheHit, err, event') \<Rightarrow>
        if cacheHit then (Suc attempt, cacheHit, err, event')
        else PollImmediateUntil tryOnce (Suc attempt) remaining event')"

text \<open>The tail of \<open>tryDecorate\<close>: the two deadlines, the polling and the retry-count metric.\<close>

definition pollCache ::
  "('j, 'v) decorator_env \<Rightarrow> (nat \<Rightarrow> Event \<Rightarrow> bool \<times> LabeledError option \<times> Event)
    \<Rightarrow> 'j cache_call \<Rightarrow> Event \<Rightarrow> 'j decorate_result" where
  "pollCache env tryOnce call event =
     (case PollImmediateUntil tryOnce 0 (ticks env) event of
        (retryCount, cacheHit, err, event') \<Rightarrow>
          if cacheHit
          then \<lparr>dr_cacheHit = cacheHitTypeTrue, dr_err = None, dr_event = event',
                dr_calls = replicate retryCount call, dr_retryCount = Some retryCount\<rparr>
          else \<lparr>dr_cacheHit = cacheHitTypeFalse, dr_err = err, dr_event = event',
                dr_calls = replicate retryCount call, dr_retryCount = Some retryCount\<rparr>)"

definition returns :: "cacheHitType \<Rightarrow> LabeledError option \<Rightarrow> Event \<Rightarrow> 'j decorate_result" where
  "returns hit err event =
     \<lparr>dr_cacheHit = hit, dr_err = err, dr_event = event, dr_calls = [], dr_retryCount = None\<rparr>"

fun logCauses :: "StatusCause list \<Rightarrow> Event \<Rightarrow> Event" where
  "logCauses [] event = event"
| "logCauses (detail # causes) event =
     logCauses causes
       (Log LogTypeRealError (cause_Type detail @ '': '' @ cause_Message detail) event)"

definition failedRequest :: "Message \<Rightarrow> bool" where
  "failedRequest message =
     (case msg_ResponseStatus message of None \<Rightarrow> False | Some st \<Rightarrow> 300 \<le> status_Code st)"

text \<open>
  The decoding step of \<open>tryDecorate\<close>: \<open>respObj\<close> stays nil unless there is a response
  object with raw bytes, which are then unmarshalled.
\<close>

definition decodeResponseObject ::
  "('j, 'v) decorator_env \<Rightarrow> Message \<Rightarrow> string + PartialObjectMetadata option" where
  "decodeResponseObject env message =
     (case msg_ResponseObject message of
        Some (Some raw) \<Rightarrow> unmarshalPartial env raw
      | _ \<Rightarrow> Inr None)"

definition tryDecorate ::
  "('j, 'v) decorator_env \<Rightarrow> Message \<Rightarrow> Event \<Rightarrow> 'j decorate_result" where
  "tryDecorate env message event =
     (case (if failedRequest message then msg_ResponseStatus message else None) of
        Some st \<Rightarrow>
          (let event1 = Log LogTypeRealError (status_Reason st @ '': '' @ status_Message st) event;
               event2 = (case status_Details st of
                           None \<Rightarrow> event1
                         | Some details \<Rightarrow> logCauses (details_Causes details) event1)
           in returns cacheHitTypeError None event2)
      | None \<Rightarrow>
     (case msg_ObjectRef message of
        None \<Rightarrow> returns cacheHitTypeNoObjectRef None event
      | Some objectRef \<Rightarrow>
     (case decodeResponseObject env message of
        Inl err \<Rightarrow>
          returns cacheHitTypeRawJsonDecode
            (Some (LabelError (''Error decoding raw object: '' @ err) ''RawJsonDecodeError''))
            (Log LogTypeKelemetryError ''Error decoding raw object'' event)
      | Inr respObj \<Rightarrow>
     (let responseRv = (case respObj of None \<Rightarrow> '''' | Some obj \<Rightarrow> pom_ResourceVersion obj);
          hasDiff = (msg_Verb message = VerbUpdate \<or> msg_Verb message = VerbPatch)
      in
      if hasDiff \<and> (case respObj of
                      None \<Rightarrow> False
                    | Some obj \<Rightarrow> ref_ResourceVersion objectRef = pom_ResourceVersion obj)
      then returns cacheHitTypeNoop None (Log LogTypeRealVerbose ''No-op update'' event)
      else if \<not> decoratesResource message
      then returns cacheHitTypeFiltered None event
      else
       (let object = ObjectRefFromAudit objectRef (msg_Cluster message) (ref_UID objectRef)
        in
        if msg_Verb message = VerbUpdate \<or> msg_Verb message = VerbPatch then
          (let oldRv = ref_ResourceVersion objectRef;
               newRv = (if responseRv \<noteq> '''' then Some responseRv else None)
           in
           if (case newRv of None \<Rightarrow> False | Some rv \<Rightarrow> oldRv = rv)
           then returns cacheHitTypeSameRv None (Log LogTypeRealVerbose ''No-op update'' event)
           else pollCache env
                  (\<lambda>attempt ev. tryUpdateOnce env attempt object oldRv newRv ev message)
                  (CallFetch object oldRv newRv) event)
        else if msg_Verb message = VerbCreate \<or> msg_Verb message = VerbDelete then
          (case VerbToSnapshotName env (msg_Verb message) of
             None \<Rightarrow> returns cacheHitTypeUndecoratedVerb None event
           | Some snapshotName \<Rightarrow>
               pollCache env
                 (\<lambda>attempt ev. tryCreateDeleteOnce env attempt object snapshotName ev)
                 (CallFetchSnapshot object snapshotName) event)
        else returns cacheHitTypeUnsupportedVerb None event)))))"

text \<open>
  \<open>Decorate\<close>: it builds the metric from \<open>message.ObjectRef\<close> before anything else, so a
  nil \<open>ObjectRef\<close> panics (\<open>None\<close>). Otherwise the event gets the error of \<open>tryDecorate\<close>
  as a log and the metric its outcome.
\<close>

record 'j decorated =
  dec_event :: Event
  dec_CacheHit :: string
  dec_Error :: "LabeledError option"
  dec_calls :: "'j cache_call list"

definition Decorate ::
  "('j, 'v) decorator_env \<Rightarrow> Message \<Rightarrow> Event \<Rightarrow> 'j decorated option" where
  "Decorate env message event =
     (case msg_ObjectRef message of
        None \<Rightarrow> None
      | Some _ \<Rightarrow>
          (let r = tryDecorate env message event;
               event' = (case dr_err r of
                           None \<Rightarrow> dr_event r
                         | Some err \<Rightarrow> Log LogTypeKelemetryError (err_text err) (dr_event r))
           in Some \<lparr>dec_event = event', dec_CacheHit = cacheHitLabel (dr_cacheHit r),
                    dec_Error = dr_err r, dec_calls = dr_calls r\<rparr>))"

text \<open>A concrete decorator, message and event to run the definitions on.\<close>

definition example_raw :: string where
  "example_raw = ''{'' @ [CHR 0x22] @ ''metadata'' @ [CHR 0x22] @ '':{'' @ [CHR 0x22]
     @ ''resourceVersion'' @ [CHR 0x22] @ '':'' @ [CHR 0x22] @ ''100'' @ [CHR 0x22] @ ''}}''"

definition example_partial :: PartialObjectMetadata where
  "example_partial =
     \<lparr>pom_APIVersion = '''', pom_Kind = '''', pom_Namespace = '''', pom_Name = '''',
      pom_UID = '''', pom_ResourceVersion = ''100''\<rparr>"

definition example_decorator :: "(unit, string) decorator_env" where
  "example_decorator =
     \<lparr>Fetch = (\<lambda>attempt object oldRv newRv. Inr None),
      FetchSnapshot = (\<lambda>attempt object name. Inr None),
      unmarshalPartial =
        (\<lambda>raw. if raw = example_raw then Inr (Some example_partial) else Inl ''invalid JSON''),
      goSyntax = (\<lambda>v. v),
      VerbToSnapshotName = [''create'' \<mapsto> ''creation'', ''delete'' \<mapsto> ''deletion''],
      ticks = 2\<rparr>"

definition example_objectRef :: "string \<Rightarrow> ObjectReference" where
  "example_objectRef rv =
     \<lparr>ref_Resource = ''pods'', ref_Namespace = ''default'', ref_Name = ''p1'', ref_UID = '''',
      ref_APIGroup = '''', ref_APIVersion = ''v1'', ref_ResourceVersion = rv,
      ref_Subresource = ''''\<rparr>"

definition example_status :: "int \<Rightarrow> Status" where
  "example_status code =
     \<lparr>status_Code = code, status_Reason = ''Conflict'', status_Message = ''object was modified'',
      status_Details = Some \<lparr>details_Causes =
        [\<lparr>cause_Type = ''FieldValueInvalid'', cause_Message = ''bad field''\<rparr>]\<rparr>\<rparr>"

definition example_message :: "string \<Rightarrow> string \<Rightarrow> string \<Rightarrow> int \<Rightarrow> Message" where
  "example_message stage verb rv code =
     \<lparr>msg_Cluster = ''clusterA'', msg_SourceAddr = ''10.0.0.1'', msg_AuditID = ''a1'',
      msg_Stage = stage, msg_Verb = verb, msg_User = \<lparr>user_Username = ''alice''\<rparr>,
      msg_ImpersonatedUser = None, msg_UserAgent = ''kubectl'',
      msg_ObjectRef = Some (example_objectRef rv),
      msg_ResponseStatus = Some (example_status code),
      msg_ResponseObject = Some (Some example_raw),
      msg_RequestReceivedTimestamp = 1000, msg_StageTimestamp = 2000\<rparr>"

definition example_event :: Event where
  "example_event = NewEvent ''spec'' ''alice update'' 1000 ''audit''"

section \<open>Local message queue (pkg/audit/mq/local/local.go)\<close>

type_synonym byte = "8 word"



















section \<open>Diff API (package api, second part of src/pkg/metrics/noop/noop.go)\<close>

text \<open>
  \<open>strconv.Atoi\<close> on a 64-bit platform: an optional sign, then decimal digits only;
  \<open>None\<close> is a syntax or range error.
\<close>

definition isDigit :: "char \<Rightarrow> bool" where
  "isDigit c = (48 \<le> (of_char c :: nat) \<and> (of_char c :: nat) \<le> 57)"

fun digitsValue :: "int \<Rightarrow> string \<Rightarrow> int" where
  "digitsValue n [] = n"
| "digitsValue n (ch # s) = digitsValue (n * 10 + (of_char ch - 48)) s"

definition Atoi :: "string \<Rightarrow> int option" where
  "Atoi s =
     (let neg = (s \<noteq> [] \<and> hd s = CHR ''-'');
          digits = (if s \<noteq> [] \<and> (hd s = CHR ''-'' \<or> hd s = CHR ''+'') then tl s else s)
      in if digits = [] \<or> \<not> list_all isDigit digits then None
         else (let n = digitsValue 0 digits;
                   v = (if neg then - n else n)
               in if - (2 ^ 63) \<le> v \<and> v < 2 ^ 63 then Some v else None))"

text \<open>\<open>url.Values\<close> and \<open>gin.Context.Query\<close>: the first value of the key, or the empty string.\<close>

type_synonym Values = "string \<rightharpoonup> string list"

definition Query :: "Values \<Rightarrow> string \<Rightarrow> string" where
  "Query values k = (case values k of Some (v # vs) \<Rightarrow> v | _ \<Rightarrow> '''')"

record scan_params =
  param_group :: string
  param_version :: string
  param_resource :: string
  param_namespace :: string
  param_name :: string

text \<open>
  What the API is given: the object cache, the \<open>List\<close> of the diff cache, the name of the
  target cluster and \<open>util.ObjectRefFromUnstructured\<close>.
\<close>

record ('j, 'v) api_env =
  objectCache_Get :: "'j ObjectRef \<Rightarrow> string + 'j option"
  diffCache_List :: "'j ObjectRef \<Rightarrow> int \<Rightarrow> string + 'v Patch list"
  api_ClusterName :: string
  api_ObjectRefFromUnstructured :: "'j \<Rightarrow> string \<Rightarrow> GroupVersionResource \<Rightarrow> 'j ObjectRef"

datatype 'v api_response = JSON int "'v Patch list" | AbortWithError int string

text \<open>
  The result of \<open>handleScan\<close>: the calls made to \<open>DiffCache.List\<close> with their limit, what
  was written to the HTTP response, and the error returned.
\<close>

record ('j, 'v) scan_result =
  scan_listCalls :: "('j ObjectRef \<times> int) list"
  scan_response :: "'v api_response option"
  scan_err :: "string option"

definition handleScan :: "('j, 'v) api_env \<Rightarrow> scan_params \<Rightarrow> Values \<Rightarrow> ('j, 'v) scan_result" where
  "handleScan api params query =
     (let limitString = Query query ''100'';
          limit = (case Atoi limitString of Some parsedLimit \<Rightarrow> parsedLimit | None \<Rightarrow> 100);
          gvr = \<lparr>gvr_Group = param_group params, gvr_Version = param_version params,
                 gvr_Resource = param_resource params\<rparr>
      in case objectCache_Get api
                \<lparr>obj_Cluster = '''', obj_GroupVersionResource = gvr,
                 obj_Namespace = param_namespace params, obj_Name = param_name params,
                 obj_Uid = '''', obj_Raw = None\<rparr> of
           Inl err \<Rightarrow> \<lparr>scan_listCalls = [], scan_response = None, scan_err = Some err\<rparr>
         | Inr None \<Rightarrow>
             \<lparr>scan_listCalls = [],
              scan_response = Some (AbortWithError 404 ''object does not exist''),
              scan_err = Some ''object does not exist''\<rparr>
         | Inr (Some raw) \<Rightarrow>
             (let object = api_ObjectRefFromUnstructured api raw (api_ClusterName api) gvr
              in case diffCache_List api object limit of
                   Inl err \<Rightarrow>
                     \<lparr>scan_listCalls = [(object, limit)], scan_response = None,
                      scan_err = Some err\<rparr>
                 | Inr list \<Rightarrow>
                     \<lparr>scan_listCalls = [(object, limit)], scan_response = Some (JSON 200 list),
                      scan_err = None\<rparr>))"

text \<open>
  A concrete API: every object exists, and the diff cache holds the patches of resource
  versions 1 to 150 and lists the most recent ones first.
\<close>

definition example_patch :: "nat \<Rightarrow> string Patch" where
  "example_patch n =
     \<lparr>patch_InformerTime = int n, patch_OldResourceVersion = replicate n CHR ''i'',
      patch_NewResourceVersion = replicate (Suc n) CHR ''i'', patch_Redacted = False,
      patch_DiffList = []\<rparr>"

definition example_api :: "(unit, string) api_env" where
  "example_api =
     \<lparr>objectCache_Get = (\<lambda>object. Inr (Some ())),
      diffCache_List = (\<lambda>object limit. Inr (take (nat limit) (map example_patch (rev [1..<151])))),
      api_ClusterName = ''clusterA'',
      api_ObjectRefFromUnstructured = (\<lambda>raw cluster gvr.
        \<lparr>obj_Cluster = cluster, obj_GroupVersionResource = gvr, obj_Namespace = ''default'',
         obj_Name = ''web'', obj_Uid = ''u1'', obj_Raw = Some raw\<rparr>)\<rparr>"

definition example_params :: scan_params where
  "example_params =
     \<lparr>param_group = ''apps'', param_version = ''v1'', param_resource = ''deployments'',
      param_namespace = ''default'', param_name = ''web''\<rparr>"

definition example_object :: "unit ObjectRef" where
  "example_object =
     \<lparr>obj_Cluster = ''clusterA'',
      obj_GroupVersionResource =
        \<lparr>gvr_Group = ''apps'', gvr_Version = ''v1'', gvr_Resource = ''deployments''\<rparr>,
      obj_Namespace = ''default'', obj_Name = ''web'', obj_Uid = ''u1'', obj_Raw = Some ()\<rparr>"

section \<open>Audit consumer (package auditconsumer, src/unnamed/part\_003)\<close>

record consumer_options =
  opt_clusterFilter :: string
  opt_ignoreImpersonate :: bool
  opt_enableSubObject :: bool

record SubObjectId =
  sub_Id :: string
  sub_Primary :: bool

text \<open>\<open>schema.GroupVersionKind\<close>.\<close>

record GroupVersionKind =
  gvk_Group :: string
  gvk_Version :: string
  gvk_Kind :: string

text \<open>
  What the receiver is given: its options, the filter, the discovery cache of each cluster
  (\<open>ForCluster\<close>, then \<open>LookupResource\<close>), the registered decorators in registration order
  (a decorator that panics returns \<open>None\<close>), \<open>json.Unmarshal\<close> into a
  \<open>PartialObjectMetadata\<close> and into a \<open>map[string]any\<close>, and \<open>http.StatusText\<close>.
\<close>

record 'j receiver =
  recv_options :: consumer_options
  recv_TestAuditEvent :: "Message \<Rightarrow> bool"
  recv_ForCluster :: "string \<Rightarrow> string + (GroupVersionKind \<rightharpoonup> GroupVersionResource)"
  recv_decoratorList :: "(Message \<Rightarrow> Event \<Rightarrow> Event option) list"
  recv_unmarshalPartial :: "string \<Rightarrow> string + PartialObjectMetadata option"
  recv_unmarshalObject :: "string \<Rightarrow> string + 'j"
  recv_StatusText :: "int \<Rightarrow> string"

definition supportedVerbs :: "string set" where
  "supportedVerbs = {VerbCreate, VerbUpdate, VerbDelete, VerbPatch}"

text \<open>\<open>schema.ParseGroupVersion\<close>: \<open>version\<close>, \<open>group/version\<close>, or an error.\<close>

definition ParseGroupVersion :: "string \<Rightarrow> string + (string \<times> string)" where
  "ParseGroupVersion gv =
     (if gv = [] \<or> gv = ''/'' then Inr ('''', '''')
      else if count_list gv CHR ''/'' = 0 then Inr ('''', gv)
      else if count_list gv CHR ''/'' = 1
      then Inr (takeWhile (\<lambda>c. c \<noteq> CHR ''/'') gv, tl (dropWhile (\<lambda>c. c \<noteq> CHR ''/'') gv))
      else Inl (''unexpected GroupVersion string: '' @ gv))"

definition zeroPartial :: PartialObjectMetadata where
  "zeroPartial =
     \<lparr>pom_APIVersion = '''', pom_Kind = '''', pom_Namespace = '''', pom_Name = '''',
      pom_UID = '''', pom_ResourceVersion = ''''\<rparr>"

text \<open>The bytes of a \<open>Raw\<close> slice; a nil slice has none.\<close>

definition rawBytes :: "string option \<Rightarrow> string" where
  "rawBytes raw = (case raw of None \<Rightarrow> '''' | Some bytes \<Rightarrow> bytes)"

text \<open>\<open>inferObjectRef\<close> returns the message with the reconstructed \<open>ObjectRef\<close>, or an error.\<close>

definition inferObjectRef :: "'j receiver \<Rightarrow> Message \<Rightarrow> string + Message" where
  "inferObjectRef recv message =
     (case msg_ResponseObject message of
        None \<Rightarrow> Inl ''no ResponseObject to infer objectRef from''
      | Some raw \<Rightarrow>
     (case recv_unmarshalPartial recv (rawBytes raw) of
        Inl err \<Rightarrow> Inl (''unmarshal raw object: '' @ err)
      | Inr decoded \<Rightarrow>
     (let partial = (case decoded of None \<Rightarrow> zeroPartial | Some p \<Rightarrow> p)
      in case ParseGroupVersion (pom_APIVersion partial) of
        Inl err \<Rightarrow> Inl (''object has invalid GroupVersion: '' @ err)
      | Inr gv \<Rightarrow>
     (case recv_ForCluster recv (msg_Cluster message) of
        Inl err \<Rightarrow> Inl (''no ClusterDiscoveryCache: '' @ err)
      | Inr cdc \<Rightarrow>
     (case cdc \<lparr>gvk_Group = fst gv, gvk_Version = snd gv, gvk_Kind = pom_Kind partial\<rparr> of
        None \<Rightarrow> Inl ''conversion of response to GVR failed''
      | Some gvr \<Rightarrow>
          Inr (message\<lparr>msg_ObjectRef := Some
            \<lparr>ref_Resource = gvr_Resource gvr, ref_Namespace = pom_Namespace partial,
             ref_Name = pom_Name partial, ref_UID = pom_UID partial,
             ref_APIGroup = gvr_Group gvr, ref_APIVersion = gvr_Version gvr,
             ref_ResourceVersion = '''', ref_Subresource = ''''\<rparr>\<rparr>))))))"

text \<open>\<open>DecoratorList.Decorate\<close>: every decorator in turn, on the same event.\<close>

fun decorateAll :: "(Message \<Rightarrow> Event \<Rightarrow> Event option) list \<Rightarrow> Message \<Rightarrow> Event \<Rightarrow> Event option" where
  "decorateAll [] message event = Some event"
| "decorateAll (decorator # list) message event =
     (case decorator message event of
        None \<Rightarrow> None
      | Some event' \<Rightarrow> decorateAll list message event')"

text \<open>
  The result of \<open>handleItem\<close>: the event it built, if it came that far, the calls made to
  \<open>Aggregator.Send\<close>, the \<open>HasTrace\<close> label of the metric, and whether a panic was
  recovered on the way.
\<close>

record 'j item_result =
  item_event :: "Event option"
  item_sends :: "('j ObjectRef \<times> Event \<times> SubObjectId option) list"
  item_HasTrace :: bool
  item_panicked :: bool

definition dropped :: "'j item_result" where
  "dropped = \<lparr>item_event = None, item_sends = [], item_HasTrace = False, item_panicked = False\<rparr>"

definition handleItem :: "'j receiver \<Rightarrow> Message \<Rightarrow> 'j item_result" where
  "handleItem recv message0 =
     (if msg_Verb message0 \<notin> supportedVerbs then dropped
      else if msg_Stage message0 \<noteq> StageResponseComplete then dropped
      else if \<not> recv_TestAuditEvent recv message0 then dropped
      else
     (case (if (case msg_ObjectRef message0 of None \<Rightarrow> True | Some r \<Rightarrow> ref_Name r = '''')
            then inferObjectRef recv message0 else Inr message0) of
        Inl err \<Rightarrow> dropped
      | Inr message \<Rightarrow>
     (case msg_ObjectRef message of
        None \<Rightarrow> dropped\<lparr>item_panicked := True\<rparr>
      | Some ref \<Rightarrow>
     (case (case msg_ResponseObject message of
              None \<Rightarrow> Inr None
            | Some raw \<Rightarrow> map_sum id Some (recv_unmarshalObject recv (rawBytes raw))) of
        Inl err \<Rightarrow> dropped
      | Inr rawObject \<Rightarrow>
     (let objectRef =
            \<lparr>obj_Cluster = msg_Cluster message,
             obj_GroupVersionResource =
               \<lparr>gvr_Group = ref_APIGroup ref, gvr_Version = ref_APIVersion ref,
                gvr_Resource = ref_Resource ref\<rparr>,
             obj_Namespace = ref_Namespace ref, obj_Name = ref_Name ref, obj_Uid = ref_UID ref,
             obj_Raw = rawObject\<rparr>;
          field = (if msg_Verb message = VerbUpdate \<and> ref_Subresource ref = ''status''
                   then ''status''
                   else if msg_Verb message = VerbDelete then ''deletion'' else ''spec'');
          username = (case msg_ImpersonatedUser message of
                        None \<Rightarrow> user_Username (msg_User message)
                      | Some impersonated \<Rightarrow>
                          if \<not> opt_ignoreImpersonate (recv_options recv)
                          then user_Username impersonated
                          else user_Username (msg_User message));
          title1 = username @ '' '' @ msg_Verb message;
          title2 = (if ref_Subresource ref \<noteq> '''' then title1 @ '' '' @ ref_Subresource ref
                    else title1)
      in
      case msg_ResponseStatus message of
        None \<Rightarrow> dropped\<lparr>item_panicked := True\<rparr>
      | Some status \<Rightarrow>
     (let title = (if 300 \<le> status_Code status
                   then title2 @ '' ('' @ recv_StatusText recv (status_Code status) @ '')''
                   else title2);
          event =
            WithTag ''tag'' (TagString (msg_Verb message))
             (WithTag ''apiserver'' (TagString (msg_SourceAddr message))
              (WithTag ''resourceVersion'' (TagString (ref_ResourceVersion ref))
               (WithTag ''responseCode'' (TagInt (status_Code status))
                (WithTag ''userAgent'' (TagString (msg_UserAgent message))
                 (WithTag ''username'' (TagString username)
                  (WithEndTime (msg_StageTimestamp message)
                    (NewEvent field title (msg_RequestReceivedTimestamp message) ''audit'')))))))
      in
      case decorateAll (recv_decoratorList recv) message event of
        None \<Rightarrow> \<lparr>item_event = Some event, item_sends = [], item_HasTrace = False,
                  item_panicked = True\<rparr>
      | Some decorated \<Rightarrow>
     (let subObjectId =
            (if opt_enableSubObject (recv_options recv)
                \<and> (msg_Verb message = VerbUpdate \<or> msg_Verb message = VerbPatch)
             then Some \<lparr>sub_Id = ''rv='' @ ref_ResourceVersion ref,
                        sub_Primary = (status_Code status < 300)\<rparr>
             else None)
      in \<lparr>item_event = Some decorated, item_sends = [(objectRef, decorated, subObjectId)],
          item_HasTrace = True, item_panicked = False\<rparr>)))))))"

text \<open>
  \<open>handleMessage\<close>: the cluster is the part of the key before the first slash; a message
  of another cluster than the configured one, or one that does not decode, is not handled.
\<close>

definition handleMessage ::
  "'j receiver \<Rightarrow> (string \<Rightarrow> string + Message) \<Rightarrow> string \<Rightarrow> string \<Rightarrow> 'j item_result" where
  "handleMessage recv unmarshalMessage msgKey msgValue =
     (let cluster = takeWhile (\<lambda>c. c \<noteq> CHR ''/'') msgKey
      in if opt_clusterFilter (recv_options recv) \<noteq> ''''
            \<and> opt_clusterFilter (recv_options recv) \<noteq> cluster
         then dropped
         else case unmarshalMessage msgValue of
                Inl err \<Rightarrow> dropped
              | Inr message \<Rightarrow> handleItem recv message)"

text \<open>A receiver whose only decorator is the diff decorator above.\<close>

definition example_receiver :: "unit receiver" where
  "example_receiver =
     \<lparr>recv_options =
        \<lparr>opt_clusterFilter = '''', opt_ignoreImpersonate = False, opt_enableSubObject = True\<rparr>,
      recv_TestAuditEvent = (\<lambda>message. True),
      recv_ForCluster = (\<lambda>cluster. Inr Map.empty),
      recv_decoratorList =
        [\<lambda>message event. map_option dec_event (Decorate example_decorator message event)],
      recv_unmarshalPartial = unmarshalPartial example_decorator,
      recv_unmarshalObject = (\<lambda>raw. if raw = example_raw then Inr () else Inl ''invalid JSON''),
      recv_StatusText = (\<lambda>code. if code = 409 then ''Conflict'' else '''')\<rparr>"

section \<open>Diff controller (pkg/diff/controller/controller.go)\<close>

text \<open>
  An \<open>unstructured.Unstructured\<close> object: its body and what the accessors of the
  library read from the body's metadata. \<open>GetDeletionTimestamp\<close> returns a pointer,
  nil when the object has no deletion timestamp.
\<close>

record 'j Unstructured =
  u_Object :: 'j
  u_ResourceVersion :: string
  u_DeletionTimestamp :: "time option"
  u_Labels :: "string \<rightharpoonup> string"
  u_Namespace :: string
  u_Name :: string
  u_Kind :: string

text \<open>The old and new value of a \<open>diffcmp.Diff\<close> are of type \<open>any\<close>: a string, or a JSON value.\<close>

datatype 'j go_any = AnyString string | AnyValue 'j

definition LabelKeyRedacted :: string where
  "LabelKeyRedacted = ''kelemetry.kubewharf.io/diff-redacted''"

text \<open>
  What the controller is given: \<open>MatchString\<close> of the compiled redact pattern,
  \<open>diffcmp.Compare\<close> (the structural JSON diff), the clock, the name of the target
  cluster, \<open>json.Marshal\<close> and \<open>util.ObjectRefFromUnstructured\<close>.
\<close>

record 'j diff_controller =
  ctrl_redactRegex :: "string \<Rightarrow> bool"
  ctrl_Compare :: "'j \<Rightarrow> 'j \<Rightarrow> 'j go_any Diff list"
  ctrl_Now :: time
  ctrl_ClusterName :: string
  ctrl_Marshal :: "'j Unstructured \<Rightarrow> string + string"
  ctrl_ObjectRefFromUnstructured ::
    "'j Unstructured \<Rightarrow> string \<Rightarrow> GroupVersionResource \<Rightarrow> 'j ObjectRef"

record 'j monitor =
  mon_ctrl :: "'j diff_controller"
  mon_gvr :: GroupVersionResource

text \<open>The writes to the diff cache, in the order in which they are made.\<close>

datatype 'j cache_write =
  Store "'j ObjectRef" "'j go_any Patch"
  | StoreSnapshot "'j ObjectRef" string Snapshot

text \<open>The string \<open>g/v/r/ns/name\<close> that \<open>testRedacted\<close> matches against the redact pattern.\<close>

definition gvrnn :: "'j monitor \<Rightarrow> 'j Unstructured \<Rightarrow> string" where
  "gvrnn monitor obj =
     gvr_Group (mon_gvr monitor) @ ''/'' @ gvr_Version (mon_gvr monitor) @ ''/''
       @ gvr_Resource (mon_gvr monitor) @ ''/'' @ u_Namespace obj @ ''/'' @ u_Name obj"

definition testRedacted :: "'j monitor \<Rightarrow> 'j Unstructured \<Rightarrow> bool" where
  "testRedacted monitor obj =
     (let redacted = (u_Labels obj LabelKeyRedacted \<noteq> None)
      in if \<not> redacted
         then ctrl_redactRegex (mon_ctrl monitor) (gvrnn monitor obj)
         else redacted)"

text \<open>A failure of \<open>json.Marshal\<close> is logged and the snapshot is stored with no value.\<close>

definition onNeedSnapshot :: "'j monitor \<Rightarrow> 'j Unstructured \<Rightarrow> string \<Rightarrow> 'j cache_write list" where
  "onNeedSnapshot monitor obj snapshotName =
     (let redacted = testRedacted monitor obj;
          objRaw = (case ctrl_Marshal (mon_ctrl monitor) obj of
                      Inl err \<Rightarrow> ''''
                    | Inr bytes \<Rightarrow> bytes)
      in [StoreSnapshot
            (ctrl_ObjectRefFromUnstructured (mon_ctrl monitor) obj
               (ctrl_ClusterName (mon_ctrl monitor)) (mon_gvr monitor))
            snapshotName
            \<lparr>snap_ResourceVersion = u_ResourceVersion obj, snap_Redacted = redacted,
             snap_Value = objRaw\<rparr>])"

text \<open>\<open>IsZero\<close> on a \<open>*metav1.Time\<close>: a nil pointer is zero.\<close>

definition ptrIsZero :: "time option \<Rightarrow> bool" where
  "ptrIsZero t = (case t of None \<Rightarrow> True | Some t' \<Rightarrow> IsZero t')"

definition onUpdate :: "'j monitor \<Rightarrow> 'j Unstructured \<Rightarrow> 'j Unstructured \<Rightarrow> 'j cache_write list" where
  "onUpdate monitor oldObj newObj =
     (if u_ResourceVersion oldObj = u_ResourceVersion newObj then []
      else
       (let snapshot =
              (if ptrIsZero (u_DeletionTimestamp oldObj) \<and> \<not> ptrIsZero (u_DeletionTimestamp newObj)
               then onNeedSnapshot monitor newObj ''deletion'' else []);
            patch =
              \<lparr>patch_InformerTime = ctrl_Now (mon_ctrl monitor),
               patch_OldResourceVersion = u_ResourceVersion oldObj,
               patch_NewResourceVersion = u_ResourceVersion newObj,
               patch_Redacted = False, patch_DiffList = []\<rparr>;
            redacted = (testRedacted monitor oldObj \<or> testRedacted monitor newObj);
            patch' =
              (if redacted
               then patch\<lparr>patch_Redacted := True,
                          patch_DiffList :=
                            [\<lparr>diff_JsonPath = ''metadata.resourceVersion'',
                              diff_Old = AnyString (u_ResourceVersion oldObj),
                              diff_New = AnyString (u_ResourceVersion newObj)\<rparr>]\<rparr>
               else patch\<lparr>patch_DiffList :=
                            ctrl_Compare (mon_ctrl monitor) (u_Object oldObj) (u_Object newObj)\<rparr>)
        in snapshot @
           [Store (ctrl_ObjectRefFromUnstructured (mon_ctrl monitor) newObj
                     (ctrl_ClusterName (mon_ctrl monitor)) (mon_gvr monitor))
                  patch']))"

text \<open>The patches among the writes.\<close>

fun storedPatches :: "'j cache_write list \<Rightarrow> 'j go_any Patch list" where
  "storedPatches [] = []"
| "storedPatches (Store object patch # ws) = patch # storedPatches ws"
| "storedPatches (StoreSnapshot object name snapshot # ws) = storedPatches ws"

text \<open>
  A concrete monitor of secrets and pods: the redact pattern matches every secret, an
  object body is a list of fields, and the diff compares the bodies field by field.
\<close>

fun example_Compare ::
  "(string \<times> string) list \<Rightarrow> (string \<times> string) list
    \<Rightarrow> (string \<times> string) list go_any Diff list" where
  "example_Compare [] new = []"
| "example_Compare ((path, v) # old) new =
     (case map_of new path of
        None \<Rightarrow> example_Compare old new
      | Some v' \<Rightarrow>
          if v = v' then example_Compare old new
          else \<lparr>diff_JsonPath = path, diff_Old = AnyString v, diff_New = AnyString v'\<rparr>
                 # example_Compare old new)"

definition example_controller :: "(string \<times> string) list diff_controller" where
  "example_controller =
     \<lparr>ctrl_redactRegex = (\<lambda>gvrnn. take 11 gvrnn = ''/v1/secrets''),
      ctrl_Compare = example_Compare,
      ctrl_Now = 5000,
      ctrl_ClusterName = ''clusterA'',
      ctrl_Marshal = (\<lambda>obj. Inr (concat (map (\<lambda>(k, v). k @ ''='' @ v @ '';'') (u_Object obj)))),
      ctrl_ObjectRefFromUnstructured = (\<lambda>obj cluster gvr.
        \<lparr>obj_Cluster = cluster, obj_GroupVersionResource = gvr,
         obj_Namespace = u_Namespace obj, obj_Name = u_Name obj, obj_Uid = '''',
         obj_Raw = Some (u_Object obj)\<rparr>)\<rparr>"

definition example_monitor :: "string \<Rightarrow> (string \<times> string) list monitor" where
  "example_monitor resource =
     \<lparr>mon_ctrl = example_controller,
      mon_gvr = \<lparr>gvr_Group = '''', gvr_Version = ''v1'', gvr_Resource = resource\<rparr>\<rparr>"

definition example_unstructured :: "string \<Rightarrow> string \<Rightarrow> (string \<times> string) list Unstructured" where
  "example_unstructured rv containerImage =
     \<lparr>u_Object = [(''metadata.resourceVersion'', rv),
                  (''spec.containers.0.image'', containerImage)],
      u_ResourceVersion = rv, u_DeletionTimestamp = None, u_Labels = Map.empty,
      u_Namespace = ''default'', u_Name = ''p1'', u_Kind = ''Pod''\<rparr>"

section \<open>Redirect server (pkg/frontend/http/redirect/server.go)\<close>

text \<open>
  \<open>t.Truncate(d)\<close> rounds \<open>t\<close> down to a multiple of \<open>d\<close> since the zero time, for a
  positive \<open>d\<close>.
\<close>

definition Truncate :: "time \<Rightarrow> duration \<Rightarrow> time" where
  "Truncate t d = (if d \<le> 0 then t else t - (t - zeroTime) mod d)"

text \<open>
  \<open>t.UnixNano()\<close> is an \<open>int64\<close> and wraps around outside its range; the division of the
  source then truncates towards zero, and the conversion to \<open>uint64\<close> keeps the bits.
\<close>

definition UnixNano :: "time \<Rightarrow> int" where
  "UnixNano t = sint (word_of_int t :: 64 word)"

definition quot :: "int \<Rightarrow> int \<Rightarrow> int" where
  "quot a b = (if (a < 0) = (b < 0) then \<bar>a\<bar> div \<bar>b\<bar> else - (\<bar>a\<bar> div \<bar>b\<bar>))"

record TraceQueryParameters =
  tq_ServiceName :: string
  tq_OperationName :: string
  tq_Tags :: "string \<rightharpoonup> string"
  tq_StartTimeMin :: time
  tq_StartTimeMax :: time

record json_Span =
  span_StartTime :: "64 word"
  span_Duration :: "64 word"
  span_Tags :: "(string \<times> string) list"
  span_Warnings :: "string list"

record json_Trace =
  trace_Spans :: "json_Span list"

text \<open>
  What the server is given: the known clusters, the default name of the transform
  configurations, \<open>FindTraceIDs\<close> of the span reader, \<open>time.Parse\<close> with the RFC 3339
  layout, \<open>strings.ToLower\<close> and \<open>strings.EqualFold\<close>, and \<open>String\<close> of a trace identifier.
\<close>

record 'tid redirect_server =
  srv_clusterList :: "string list"
  srv_DefaultName :: string
  srv_FindTraceIDs :: "TraceQueryParameters \<Rightarrow> string + 'tid list"
  srv_ParseRFC3339 :: "string \<Rightarrow> string + time"
  srv_ToLower :: "string \<Rightarrow> string"
  srv_EqualFold :: "string \<Rightarrow> string \<Rightarrow> bool"
  srv_String :: "'tid \<Rightarrow> string"

datatype redirect_error =
  EmptyParam
  | UnknownCluster string
  | InvalidTimestamp string
  | TraceError string
  | MultiTraceMatch nat

datatype redirect_written = WroteJSON int json_Trace | WroteRedirect int string

text \<open>
  The result of \<open>handleGet\<close>: its two return values, what it wrote to the response, the
  error label of the metric and the queries sent to the span reader.
\<close>

record redirect_result =
  rr_code :: int
  rr_err :: "redirect_error option"
  rr_written :: "redirect_written option"
  rr_metricError :: "string option"
  rr_queries :: "TraceQueryParameters list"

definition fails :: "int \<Rightarrow> redirect_error \<Rightarrow> string \<Rightarrow> TraceQueryParameters list \<Rightarrow> redirect_result" where
  "fails code err label queries =
     \<lparr>rr_code = code, rr_err = Some err, rr_written = None, rr_metricError = Some label,
      rr_queries = queries\<rparr>"

definition hasCluster :: "'tid redirect_server \<Rightarrow> string \<Rightarrow> bool" where
  "hasCluster server cluster =
     list_ex (\<lambda>knownCluster.
        srv_EqualFold server (srv_ToLower server knownCluster) (srv_ToLower server cluster))
       (srv_clusterList server)"

text \<open>The query that \<open>handleGet\<close> sends to the span reader, and the trace it makes up.\<close>

definition traceQuery ::
  "'tid redirect_server \<Rightarrow> string \<Rightarrow> string \<Rightarrow> string \<Rightarrow> string \<Rightarrow> time
    \<Rightarrow> TraceQueryParameters" where
  "traceQuery server cluster resource namespace name timestamp =
     (let tags = [''resource'' \<mapsto> resource, ''name'' \<mapsto> name];
          tags' = (if namespace \<noteq> '''' then tags(''namespace'' \<mapsto> namespace) else tags)
      in \<lparr>tq_ServiceName = srv_DefaultName server, tq_OperationName = cluster,
          tq_Tags = tags',
          tq_StartTimeMin = Truncate timestamp (Minute * 30),
          tq_StartTimeMax = Truncate timestamp (Minute * 30) + Minute * 30\<rparr>)"

definition emptyTrace :: "string \<Rightarrow> string \<Rightarrow> string \<Rightarrow> string \<Rightarrow> time \<Rightarrow> json_Trace" where
  "emptyTrace cluster resource namespace name timestamp =
     \<lparr>trace_Spans =
        [\<lparr>span_StartTime = word_of_int (quot (UnixNano timestamp) 1000),
          span_Duration = word_of_int (quot (Minute * 30) 1000),
          span_Tags = [(''cluster'', cluster), (''resource'', resource),
                       (''namespace'', namespace), (''name'', name)],
          span_Warnings = [''no events found'']\<rparr>]\<rparr>"

definition handleGet :: "'tid redirect_server \<Rightarrow> Values \<Rightarrow> redirect_result" where
  "handleGet server query =
     (let cluster = Query query ''cluster'';
          resource = Query query ''resource'';
          namespace = Query query ''namespace'';
          name = Query query ''name''
      in
      if length cluster = 0 \<or> length resource = 0 \<or> length name = 0
      then fails 400 EmptyParam ''EmptyParam'' []
      else if \<not> hasCluster server cluster
      then fails 404 (UnknownCluster cluster) ''UnknownCluster'' []
      else
     (case srv_ParseRFC3339 server (Query query ''ts'') of
        Inl err \<Rightarrow> fails 400 (InvalidTimestamp err) ''InvalidTimestamp'' []
      | Inr timestamp \<Rightarrow>
     (let parameters = traceQuery server cluster resource namespace name timestamp
      in
      case srv_FindTraceIDs server parameters of
        Inl err \<Rightarrow> fails 500 (TraceError err) ''TraceError'' [parameters]
      | Inr traceIDs \<Rightarrow>
          if 1 < length traceIDs
          then fails 500 (MultiTraceMatch (length traceIDs)) ''MultiTraceMatch'' [parameters]
          else if length traceIDs = 0
          then \<lparr>rr_code = 0, rr_err = None,
                rr_written = Some (WroteJSON 200
                  (emptyTrace cluster resource namespace name timestamp)),
                rr_metricError = Some ''NoTraceMatch'', rr_queries = [parameters]\<rparr>
          else \<lparr>rr_code = 0, rr_err = None,
                rr_written = Some (WroteRedirect 302
                  (''/trace/'' @ srv_String server (hd traceIDs))),
                rr_metricError = None, rr_queries = [parameters]\<rparr>)))"

text \<open>
  The status of the HTTP response: the route sets the returned code when \<open>handleGet\<close>
  returns an error, and otherwise the handler has written the response.
\<close>

definition responseStatus :: "redirect_result \<Rightarrow> int option" where
  "responseStatus r =
     (case rr_err r of
        Some err \<Rightarrow> Some (rr_code r)
      | None \<Rightarrow>
          (case rr_written r of
             None \<Rightarrow> None
           | Some (WroteJSON code trace) \<Rightarrow> Some code
           | Some (WroteRedirect code location) \<Rightarrow> Some code))"

text \<open>
  A concrete server that knows one cluster. Its trace store holds one trace of pod
  \<open>p1\<close>, none of pod \<open>p2\<close> and two of pod \<open>p3\<close>; its parser knows one timestamp,
  12:07 on January 1, 2024.
\<close>

definition example_ts :: time where
  "example_ts = 1704110820 * Second"

definition example_server :: "string redirect_server" where
  "example_server =
     \<lparr>srv_clusterList = [''clustera''],
      srv_DefaultName = ''tracing'',
      srv_FindTraceIDs = (\<lambda>parameters.
        if tq_Tags parameters ''name'' = Some ''p1'' then Inr [''0af7''] else
        if tq_Tags parameters ''name'' = Some ''p2'' then Inr [] else
        if tq_Tags parameters ''name'' = Some ''p3'' then Inr [''0af7'', ''0af8'']
        else Inl ''store unavailable''),
      srv_ParseRFC3339 = (\<lambda>s. if s = ''2024-01-01T12:07:00Z'' then Inr example_ts
                                else Inl ''cannot parse''),
      srv_ToLower = (\<lambda>s. s),
      srv_EqualFold = (\<lambda>s t. s = t),
      srv_String = (\<lambda>traceID. traceID)\<rparr>"

definition example_query :: "string \<Rightarrow> string \<Rightarrow> string \<Rightarrow> Values" where
  "example_query cluster name ts =
     [''cluster'' \<mapsto> [cluster], ''resource'' \<mapsto> [''pods''], ''namespace'' \<mapsto> [''default''],
      ''name'' \<mapsto> [name], ''ts'' \<mapsto> [ts]]"

section \<open>Event informer (package event, second part of src/pkg/frontend/plugin.go)\<close>

definition configMapLastEventKey :: string where
  "configMapLastEventKey = ''timestamp''"

definition configMapLastUpdatedKey :: string where
  "configMapLastUpdatedKey = ''lastUpdated''"

text \<open>
  A \<open>corev1.ConfigMap\<close>: its \<open>Data\<close> is a Go map, nil (\<open>None\<close>) when the object has no
  data. Reading a missing key, or a nil map, gives the empty string; writing to a nil map
  panics.
\<close>

record ConfigMap =
  cm_Data :: "(string \<rightharpoonup> string) option"

definition dataAt :: "ConfigMap \<Rightarrow> string \<Rightarrow> string" where
  "dataAt cm k =
     (case cm_Data cm of
        None \<Rightarrow> ''''
      | Some d \<Rightarrow> (case d k of None \<Rightarrow> '''' | Some v \<Rightarrow> v))"

text \<open>\<open>t.Format(time.RFC3339)\<close> and \<open>time.Parse(time.RFC3339, s)\<close>.\<close>

record rfc3339 =
  Format :: "time \<Rightarrow> string"
  Parse :: "string \<Rightarrow> string + time"

text \<open>
  The closure that \<open>handleEvent\<close> sends to the writer of the ConfigMap, for the event
  time it has captured. \<open>None\<close> is the panic of a write to a nil map.
\<close>

definition updater :: "rfc3339 \<Rightarrow> time \<Rightarrow> ConfigMap \<Rightarrow> ConfigMap option" where
  "updater lib eventTime cm =
     (if (case Parse lib (dataAt cm configMapLastEventKey) of
            Inl err \<Rightarrow> True
          | Inr t \<Rightarrow> Before t eventTime)
      then (case cm_Data cm of
              None \<Rightarrow> None
            | Some d \<Rightarrow>
                Some (cm\<lparr>cm_Data := Some (d(configMapLastEventKey \<mapsto> Format lib eventTime))\<rparr>))
      else Some cm)"

text \<open>
  \<open>pollConfigLoop\<close> applies the updaters it receives until the next tick, in the order
  in which they arrive; \<open>updates\<close> are the event times of these updaters.
\<close>

fun pollConfigLoop :: "rfc3339 \<Rightarrow> time list \<Rightarrow> ConfigMap \<Rightarrow> ConfigMap option" where
  "pollConfigLoop lib [] configMap = Some configMap"
| "pollConfigLoop lib (eventTime # updates) configMap =
     (case updater lib eventTime configMap of
        None \<Rightarrow> None
      | Some configMap' \<Rightarrow> pollConfigLoop lib updates configMap')"

text \<open>
  The start of \<open>syncConfigMap\<close>: the ConfigMap created when there is none, and the
  watermark \<open>lastEventTime\<close> loaded from the ConfigMap, the current time if the stored
  value does not parse.
\<close>

definition newConfigMap :: "rfc3339 \<Rightarrow> time \<Rightarrow> ConfigMap" where
  "newConfigMap lib now = \<lparr>cm_Data = Some [configMapLastEventKey \<mapsto> Format lib now]\<rparr>"

definition startEventTime :: "rfc3339 \<Rightarrow> time \<Rightarrow> ConfigMap \<Rightarrow> time" where
  "startEventTime lib now configMap =
     (case Parse lib (dataAt configMap configMapLastEventKey) of
        Inl err \<Rightarrow> now
      | Inr t \<Rightarrow> t)"

text \<open>The persisted watermark: what the stored timestamp parses to, if it parses.\<close>

definition watermark :: "rfc3339 \<Rightarrow> ConfigMap \<Rightarrow> time option" where
  "watermark lib configMap =
     (case Parse lib (dataAt configMap configMapLastEventKey) of
        Inl err \<Rightarrow> None
      | Inr t \<Rightarrow> Some t)"

text \<open>A \<open>corev1.Event\<close> and the object it is about.\<close>

record InvolvedObject =
  io_APIVersion :: string
  io_Kind :: string
  io_Namespace :: string
  io_Name :: string
  io_UID :: string

record k8sEvent =
  e_Name :: string
  e_EventTime :: time
  e_LastTimestamp :: time
  e_InvolvedObject :: InvolvedObject
  e_Reason :: string
  e_Action :: string
  e_SourceComponent :: string
  e_Message :: string

text \<open>
  \<open>ObjectReference.GroupVersionKind\<close>: \<open>schema.FromAPIVersionAndKind\<close>, which leaves
  group and version empty when the API version does not parse.
\<close>

definition GroupVersionKind :: "InvolvedObject \<Rightarrow> GroupVersionKind" where
  "GroupVersionKind obj =
     (case ParseGroupVersion (io_APIVersion obj) of
        Inr gv \<Rightarrow> \<lparr>gvk_Group = fst gv, gvk_Version = snd gv, gvk_Kind = io_Kind obj\<rparr>
      | Inl err \<Rightarrow> \<lparr>gvk_Group = '''', gvk_Version = '''', gvk_Kind = io_Kind obj\<rparr>)"

text \<open>
  The controller: the leader flag, the watermark loaded at startup, the clock, and its
  collaborators (the filter, the discovery cache and the error of \<open>Aggregator.Send\<close>).
\<close>

record 'j event_controller =
  ec_isLeader :: "32 word"
  ec_lastEventTime :: time
  ec_Now :: time
  ec_ClusterName :: string
  ec_TestGvk :: "string \<Rightarrow> GroupVersionKind \<Rightarrow> bool"
  ec_ForCluster :: "string \<Rightarrow> string + (GroupVersionKind \<rightharpoonup> GroupVersionResource)"
  ec_Send :: "'j ObjectRef \<Rightarrow> Event \<Rightarrow> string option"

text \<open>
  The result of \<open>handleEvent\<close>: whether the metric was counted, its timestamp type and
  error label, the event times of the updaters enqueued and the calls to
  \<open>Aggregator.Send\<close>.
\<close>

record 'j handle_result =
  he_counted :: bool
  he_TimestampType :: string
  he_Error :: "string option"
  he_updates :: "time list"
  he_sends :: "('j ObjectRef \<times> Event) list"

definition ends :: "string \<Rightarrow> string option \<Rightarrow> time list \<Rightarrow> ('j ObjectRef \<times> Event) list
    \<Rightarrow> 'j handle_result" where
  "ends timestampType err updates sends =
     \<lparr>he_counted = True, he_TimestampType = timestampType, he_Error = err,
      he_updates = updates, he_sends = sends\<rparr>"

definition handleEvent :: "'j event_controller \<Rightarrow> k8sEvent \<Rightarrow> 'j handle_result" where
  "handleEvent ctrl event =
     (if ec_isLeader ctrl = 0
      then \<lparr>he_counted = False, he_TimestampType = '''', he_Error = None, he_updates = [],
            he_sends = []\<rparr>
      else
     (let eventTime0 = e_EventTime event;
          eventTime = (if IsZero eventTime0 then e_LastTimestamp event else eventTime0);
          timestampType = (if IsZero eventTime0 then ''LastTimestamp'' else ''EventTime'')
      in
      if IsZero eventTime then ends '''' (Some ''InferTimestamp'') [] []
      else if Before eventTime (ec_lastEventTime ctrl)
      then ends timestampType (Some ''BeforeRestart'') [] []
      else if 5 * Minute < Sub (ec_Now ctrl) eventTime
      then ends timestampType (Some ''EventTooOld'') [] []
      else
     (let updates = [eventTime];
          clusterName = ec_ClusterName ctrl;
          gvk = GroupVersionKind (e_InvolvedObject event)
      in
      if \<not> ec_TestGvk ctrl clusterName gvk
      then ends timestampType (Some ''Filtered'') updates []
      else
     (let aggregatorEvent =
            Log LogTypeEventMessage (e_Message event)
              (WithTag ''action'' (TagString (e_Action event))
                (WithTag ''source'' (TagString (e_SourceComponent event))
                  (NewEvent ''status'' (e_Reason event) eventTime ''event'')))
      in
      case ec_ForCluster ctrl clusterName of
        Inl err \<Rightarrow> ends timestampType (Some ''invalid cluster'') updates []
      | Inr cdc \<Rightarrow>
     (case cdc gvk of
        None \<Rightarrow> ends timestampType (Some ''UnknownGVK'') updates []
      | Some gvr \<Rightarrow>
     (let object =
            \<lparr>obj_Cluster = clusterName, obj_GroupVersionResource = gvr,
             obj_Namespace = io_Namespace (e_InvolvedObject event),
             obj_Name = io_Name (e_InvolvedObject event),
             obj_Uid = io_UID (e_InvolvedObject event), obj_Raw = None\<rparr>
      in
      case ec_Send ctrl object aggregatorEvent of
        Some err \<Rightarrow> ends timestampType (Some ''SendTrace'') updates [(object, aggregatorEvent)]
      | None \<Rightarrow> ends timestampType None updates [(object, aggregatorEvent)]))))))"

text \<open>
  A concrete RFC 3339 library for instants of the years 0000 to 9999 in UTC: \<open>Format\<close>
  writes \<open>YYYY-MM-DDTHH:MM:SSZ\<close>, which has no place for a fraction of a second, and
  \<open>Parse\<close> reads that form back.
\<close>

definition civil_from_days :: "int \<Rightarrow> int \<times> int \<times> int" where
  "civil_from_days days =
     (let z = days + 719468;
          era = z div 146097;
          doe = z - era * 146097;
          yoe = (doe - doe div 1460 + doe div 36524 - doe div 146096) div 365;
          doy = doe - (365 * yoe + yoe div 4 - yoe div 100);
          mp = (5 * doy + 2) div 153;
          d = doy - (153 * mp + 2) div 5 + 1;
          m = (if mp < 10 then mp + 3 else mp - 9);
          y = yoe + era * 400 + (if m \<le> 2 then 1 else 0)
      in (y, m, d))"

definition days_from_civil :: "int \<Rightarrow> int \<Rightarrow> int \<Rightarrow> int" where
  "days_from_civil y m d =
     (let y' = (if m \<le> 2 then y - 1 else y);
          era = y' div 400;
          yoe = y' - era * 400;
          doy = (153 * (if 2 < m then m - 3 else m + 9) + 2) div 5 + d - 1;
          doe = yoe * 365 + yoe div 4 - yoe div 100 + doy
      in era * 146097 + doe - 719468)"

definition digit :: "int \<Rightarrow> char" where
  "digit v = ''0123456789'' ! nat (v mod 10)"

definition pad2 :: "int \<Rightarrow> string" where
  "pad2 v = [digit (v div 10), digit v]"

definition pad4 :: "int \<Rightarrow> string" where
  "pad4 v = [digit (v div 1000), digit (v div 100), digit (v div 10), digit v]"

definition example_Format :: "time \<Rightarrow> string" where
  "example_Format t =
     (let secs = t div Second;
          days = secs div 86400;
          rem = secs mod 86400
      in case civil_from_days days of
           (y, m, d) \<Rightarrow>
             pad4 y @ ''-'' @ pad2 m @ ''-'' @ pad2 d @ ''T'' @ pad2 (rem div 3600) @ '':''
               @ pad2 (rem mod 3600 div 60) @ '':'' @ pad2 (rem mod 60) @ ''Z'')"

definition example_Parse :: "string \<Rightarrow> string + time" where
  "example_Parse s =
     (if length s = 20
         \<and> list_all isDigit (take 4 s) \<and> s ! 4 = CHR ''-''
         \<and> list_all isDigit (take 2 (drop 5 s)) \<and> s ! 7 = CHR ''-''
         \<and> list_all isDigit (take 2 (drop 8 s)) \<and> s ! 10 = CHR ''T''
         \<and> list_all isDigit (take 2 (drop 11 s)) \<and> s ! 13 = CHR '':''
         \<and> list_all isDigit (take 2 (drop 14 s)) \<and> s ! 16 = CHR '':''
         \<and> list_all isDigit (take 2 (drop 17 s)) \<and> s ! 19 = CHR ''Z''
      then
        (let y = digitsValue 0 (take 4 s);
             m = digitsValue 0 (take 2 (drop 5 s));
             d = digitsValue 0 (take 2 (drop 8 s));
             hh = digitsValue 0 (take 2 (drop 11 s));
             mm = digitsValue 0 (take 2 (drop 14 s));
             ss = digitsValue 0 (take 2 (drop 17 s))
         in if civil_from_days (days_from_civil y m d) = (y, m, d)
               \<and> hh < 24 \<and> mm < 60 \<and> ss < 60
            then Inr (((days_from_civil y m d * 24 + hh) * 60 + mm) * 60 * Second + ss * Second)
            else Inl ''out of range'')
      else Inl ''cannot parse'')"

definition example_rfc3339 :: rfc3339 where
  "example_rfc3339 = \<lparr>Format = example_Format, Parse = example_Parse\<rparr>"

text \<open>
  A leading controller in cluster A that loaded the watermark 12:07:00 on January 1, 2024,
  at the time \<open>now\<close>, and an event about pod \<open>p1\<close> with its event time.
\<close>

definition example_event_controller :: "time \<Rightarrow> unit event_controller" where
  "example_event_controller now =
     \<lparr>ec_isLeader = 1, ec_lastEventTime = example_ts, ec_Now = now,
      ec_ClusterName = ''clusterA'', ec_TestGvk = (\<lambda>cluster gvk. True),
      ec_ForCluster = (\<lambda>cluster. Inr
        [\<lparr>gvk_Group = '''', gvk_Version = ''v1'', gvk_Kind = ''Pod''\<rparr>
           \<mapsto> \<lparr>gvr_Group = '''', gvr_Version = ''v1'', gvr_Resource = ''pods''\<rparr>]),
      ec_Send = (\<lambda>object event. None)\<rparr>"

definition example_k8sEvent :: "time \<Rightarrow> k8sEvent" where
  "example_k8sEvent eventTime =
     \<lparr>e_Name = ''p1.17a'', e_EventTime = eventTime, e_LastTimestamp = zeroTime,
      e_InvolvedObject =
        \<lparr>io_APIVersion = ''v1'', io_Kind = ''Pod'', io_Namespace = ''default'',
         io_Name = ''p1'', io_UID = ''u1''\<rparr>,
      e_Reason = ''Scheduled'', e_Action = ''Binding'', e_SourceComponent = ''scheduler'',
      e_Message = ''assigned''\<rparr>"

definition example_configMap :: ConfigMap where
  "example_configMap = \<lparr>cm_Data = Some [''timestamp'' \<mapsto> ''2024-01-01T12:07:00Z'']\<rparr>"

section \<open>Transform visitors (package tfstep, src/unnamed/part\_002)\<close>

text \<open>
  \<open>model.KeyValue\<close>, \<open>model.Log\<close> and \<open>model.Span\<close> of the trace library, with the
  fields that a visitor can see; the visitors read \<open>Key\<close> and \<open>VStr\<close> only. The
  floating-point value of a \<open>KeyValue\<close> is left out.
\<close>

datatype ValueType = StringType | BoolType | Int64Type | Float64Type | BinaryType

record KeyValue =
  kv_Key :: string
  kv_VType :: ValueType
  kv_VStr :: string
  kv_VBool :: bool
  kv_VInt64 :: "64 word"
  kv_VBinary :: "byte list"

record SpanLog =
  log_Timestamp :: time
  log_Fields :: "KeyValue list"

record Span =
  s_SpanID :: "64 word"
  s_OperationName :: string
  s_StartTime :: time
  s_Duration :: duration
  s_Tags :: "KeyValue list"
  s_Logs :: "SpanLog list"

text \<open>
  The constants \<open>Prefix\<close> and \<open>SpanName\<close> of package \<open>zconstants\<close>, which is not among
  the sources, and \<open>t.Format("15:04")\<close> of the time library.
\<close>

record tf_env =
  zPrefix :: string
  zSpanName :: string
  FormatClock :: "time \<Rightarrow> string"

definition HasPrefix :: "string \<Rightarrow> string \<Rightarrow> bool" where
  "HasPrefix s pre = (take (length pre) s = pre)"

text \<open>The loop of \<open>ReplaceNameVisitor.Enter\<close>: the value of the first tag with the key.\<close>

fun firstTag :: "string \<Rightarrow> KeyValue list \<Rightarrow> string option" where
  "firstTag k [] = None"
| "firstTag k (tag # tags) = (if kv_Key tag = k then Some (kv_VStr tag) else firstTag k tags)"

definition ReplaceName_Enter :: "tf_env \<Rightarrow> bool \<Rightarrow> Span \<Rightarrow> Span" where
  "ReplaceName_Enter env isRoot span =
     (let span' = (case firstTag (zSpanName env) (s_Tags span) of
                     None \<Rightarrow> span
                   | Some name \<Rightarrow> span\<lparr>s_OperationName := name\<rparr>)
      in if isRoot
         then span'\<lparr>s_OperationName :=
                 s_OperationName span' @ '' / '' @ FormatClock env (s_StartTime span')
                   @ ''..'' @ FormatClock env (s_StartTime span' + s_Duration span')\<rparr>
         else span')"

fun removeZconstantKeys :: "tf_env \<Rightarrow> KeyValue list \<Rightarrow> KeyValue list" where
  "removeZconstantKeys env [] = []"
| "removeZconstantKeys env (tag # tags) =
     (if \<not> HasPrefix (kv_Key tag) (zPrefix env) then tag # removeZconstantKeys env tags
      else removeZconstantKeys env tags)"

definition PruneTags_Enter :: "tf_env \<Rightarrow> bool \<Rightarrow> Span \<Rightarrow> Span" where
  "PruneTags_Enter env isRoot span =
     span\<lparr>s_Tags := removeZconstantKeys env (s_Tags span),
          s_Logs := map (\<lambda>log. log\<lparr>log_Fields := removeZconstantKeys env (log_Fields log)\<rparr>)
                      (s_Logs span)\<rparr>"

datatype visitor = ReplaceNameVisitor | PruneTagsVisitor

fun Enter :: "tf_env \<Rightarrow> visitor \<Rightarrow> bool \<Rightarrow> Span \<Rightarrow> Span" where
  "Enter env ReplaceNameVisitor isRoot span = ReplaceName_Enter env isRoot span"
| "Enter env PruneTagsVisitor isRoot span = PruneTags_Enter env isRoot span"

text \<open>
  Modelled from the spec: the span tree (one root, every other span with one parent) and
  the walk of package \<open>tftree\<close>, which calls \<open>Enter\<close> on a span before its children and
  \<open>Exit\<close> after them, and the pipeline, which walks the tree once for each configured
  visitor, in order; the package is not among the sources. \<open>isRoot\<close> is the test
  \<open>span == tree.Root\<close>, and \<open>Exit\<close> does nothing in both visitors.
\<close>

datatype SpanTree = Node Span "SpanTree list"

fun visitChild :: "(bool \<Rightarrow> Span \<Rightarrow> Span) \<Rightarrow> SpanTree \<Rightarrow> SpanTree" where
  "visitChild enter (Node span children) =
     Node (enter False span) (map (visitChild enter) children)"

fun Visit :: "(bool \<Rightarrow> Span \<Rightarrow> Span) \<Rightarrow> SpanTree \<Rightarrow> SpanTree" where
  "Visit enter (Node span children) =
     Node (enter True span) (map (visitChild enter) children)"

fun pipeline :: "tf_env \<Rightarrow> visitor list \<Rightarrow> SpanTree \<Rightarrow> SpanTree" where
  "pipeline env [] tree = tree"
| "pipeline env (v # steps) tree = pipeline env steps (Visit (Enter env v) tree)"

text \<open>The operation name of the root, and the tree with that name blanked.\<close>

fun rootName :: "SpanTree \<Rightarrow> string" where
  "rootName (Node span children) = s_OperationName span"

fun clearRootName :: "SpanTree \<Rightarrow> SpanTree" where
  "clearRootName (Node span children) = Node (span\<lparr>s_OperationName := ''''\<rparr>) children"

text \<open>
  A concrete configuration: the prefix \<open>zzz-\<close>, the span-name tag, the clock in UTC, and
  the tree of a single span named \<open>pods\<close> that starts at 12:07 and lasts half an hour.
\<close>

definition example_FormatClock :: "time \<Rightarrow> string" where
  "example_FormatClock t =
     (let secs = t div Second mod 86400
      in pad2 (secs div 3600) @ '':'' @ pad2 (secs mod 3600 div 60))"

definition example_tf :: tf_env where
  "example_tf =
     \<lparr>zPrefix = ''zzz-'', zSpanName = ''zzz-kelemetryName'', FormatClock = example_FormatClock\<rparr>"

definition example_tree :: SpanTree where
  "example_tree =
     Node \<lparr>s_SpanID = 1, s_OperationName = ''pods'', s_StartTime = example_ts,
           s_Duration = 30 * Minute, s_Tags = [], s_Logs = []\<rparr> []"

text \<open>A span that a visitor leaves as it is, when the span is not the root.\<close>

definition settled :: "tf_env \<Rightarrow> visitor \<Rightarrow> Span \<Rightarrow> bool" where
  "settled env v span = (Enter env v False span = span)"

text \<open>All the steps of a pipeline on a single span.\<close>

fun enterAll :: "tf_env \<Rightarrow> visitor list \<Rightarrow> bool \<Rightarrow> Span \<Rightarrow> Span" where
  "enterAll env [] b span = span"
| "enterAll env (v # steps) b span = enterAll env steps b (Enter env v b span)"

text \<open>A span with its operation name blanked.\<close>

definition clearName :: "Span \<Rightarrow> Span" where
  "clearName span = span\<lparr>s_OperationName := ''''\<rparr>"

chapter \<open>Properties\<close>

section \<open>Properties of the diff decorator\<close>

lemma logCauses_Logs:
  "logCauses causes event =
     event\<lparr>ev_Logs := ev_Logs event
        @ map (\<lambda>d. (LogTypeRealError, cause_Type d @ '': '' @ cause_Message d)) causes\<rparr>"
  by (induction causes arbitrary: event) (simp_all add: Log_def)

text \<open>
  Claim C10. For every audit message whose response status has a code of 300 or more,
  \<open>tryDecorate\<close> makes no call to the diff cache (neither \<open>Fetch\<close> nor \<open>FetchSnapshot\<close>):
  it appends to the event one error log \<open>reason: message\<close> of the status, then one error
  log \<open>type: message\<close> for each cause of the status details, in order, and returns the
  outcome \<open>failedRequest\<close> with no error; \<open>Decorate\<close> reports that outcome as the metric's
  label.
\<close>

theorem tryDecorate_failed_request:
  assumes "msg_ResponseStatus message = Some st" and "300 \<le> status_Code st"
  shows "tryDecorate env message event =
           \<lparr>dr_cacheHit = cacheHitTypeError, dr_err = None,
            dr_event = event\<lparr>ev_Logs := ev_Logs event
              @ (LogTypeRealError, status_Reason st @ '': '' @ status_Message st)
              # map (\<lambda>d. (LogTypeRealError, cause_Type d @ '': '' @ cause_Message d))
                  (case status_Details st of None \<Rightarrow> [] | Some details \<Rightarrow> details_Causes details)\<rparr>,
            dr_calls = [], dr_retryCount = None\<rparr>
         \<and> cacheHitLabel (dr_cacheHit (tryDecorate env message event)) = ''failedRequest''
         \<and> (msg_ObjectRef message \<noteq> None \<longrightarrow>
              (\<exists>d. Decorate env message event = Some d \<and> dec_CacheHit d = ''failedRequest''
                 \<and> dec_calls d = [] \<and> dec_Error d = None))"
  using assms
  by (auto simp add: tryDecorate_def failedRequest_def returns_def logCauses_Logs Log_def Decorate_def
      split: option.splits)

text \<open>The hypotheses of C10 hold for a conflicting update (code 409).\<close>

theorem tryDecorate_failed_request_witness:
  "msg_ResponseStatus (example_message ''ResponseComplete'' ''update'' ''99'' 409)
     = Some (example_status 409)
   \<and> 300 \<le> status_Code (example_status 409)
   \<and> msg_ObjectRef (example_message ''ResponseComplete'' ''update'' ''99'' 409) \<noteq> None
   \<and> dr_cacheHit (tryDecorate example_decorator
        (example_message ''ResponseComplete'' ''update'' ''99'' 409) example_event) = cacheHitTypeError
   \<and> dr_calls (tryDecorate example_decorator
        (example_message ''ResponseComplete'' ''update'' ''99'' 409) example_event) = []
   \<and> ev_Logs (dr_event (tryDecorate example_decorator
        (example_message ''ResponseComplete'' ''update'' ''99'' 409) example_event))
      = [(LogTypeRealError, ''Conflict: object was modified''),
         (LogTypeRealError, ''FieldValueInvalid: bad field'')]
   \<and> map_option dec_CacheHit (Decorate example_decorator
        (example_message ''ResponseComplete'' ''update'' ''99'' 409) example_event)
      = Some ''failedRequest''"
proof -
  have h1: "msg_ResponseStatus (example_message ''ResponseComplete'' ''update'' ''99'' 409)
     = Some (example_status 409)"
    by (simp add: example_message_def)
  have h2: "300 \<le> status_Code (example_status 409)"
    by (simp add: example_status_def)
  have h3: "msg_ObjectRef (example_message ''ResponseComplete'' ''update'' ''99'' 409) \<noteq> None"
    by (simp add: example_message_def)
  note main = tryDecorate_failed_request [OF h1 h2, of example_decorator example_event]
  from main h3 obtain d where d: "Decorate example_decorator
        (example_message ''ResponseComplete'' ''update'' ''99'' 409) example_event = Some d"
    "dec_CacheHit d = ''failedRequest''"
    by blast
  show ?thesis
    using main h1 h2 h3 d
    by (simp add: example_status_def example_event_def NewEvent_def)
qed

text \<open>
  Claim C4. For every audit message with verb \<open>patch\<close> that passes the earlier checks of
  the decorator (the response status is absent or below 300, the object reference is
  present, the response object is absent or decodes, and the decoded resource version
  differs from the one of the object reference), \<open>tryDecorate\<close> makes no call to the diff
  cache, leaves the event untouched and returns the outcome \<open>filtered\<close>.
\<close>

theorem tryDecorate_patch_filtered:
  assumes "msg_Verb message = VerbPatch"
    and "\<not> failedRequest message"
    and "msg_ObjectRef message = Some objectRef"
    and "decodeResponseObject env message = Inr respObj"
    and "\<forall>obj. respObj = Some obj \<longrightarrow> ref_ResourceVersion objectRef \<noteq> pom_ResourceVersion obj"
  shows "tryDecorate env message event =
           \<lparr>dr_cacheHit = cacheHitTypeFiltered, dr_err = None, dr_event = event,
            dr_calls = [], dr_retryCount = None\<rparr>
         \<and> cacheHitLabel (dr_cacheHit (tryDecorate env message event)) = ''filtered''"
  using assms
  by (auto simp add: tryDecorate_def returns_def decoratesResource_def split: option.splits)

text \<open>The hypotheses of C4 hold for a successful patch from version 99 to version 100.\<close>

theorem tryDecorate_patch_filtered_witness:
  "msg_Verb (example_message ''ResponseComplete'' ''patch'' ''99'' 200) = VerbPatch
   \<and> \<not> failedRequest (example_message ''ResponseComplete'' ''patch'' ''99'' 200)
   \<and> msg_ObjectRef (example_message ''ResponseComplete'' ''patch'' ''99'' 200)
        = Some (example_objectRef ''99'')
   \<and> decodeResponseObject example_decorator (example_message ''ResponseComplete'' ''patch'' ''99'' 200)
        = Inr (Some example_partial)
   \<and> ref_ResourceVersion (example_objectRef ''99'') \<noteq> pom_ResourceVersion example_partial
   \<and> dr_cacheHit (tryDecorate example_decorator
        (example_message ''ResponseComplete'' ''patch'' ''99'' 200) example_event) = cacheHitTypeFiltered
   \<and> dr_calls (tryDecorate example_decorator
        (example_message ''ResponseComplete'' ''patch'' ''99'' 200) example_event) = []"
proof -
  let ?m = "example_message ''ResponseComplete'' ''patch'' ''99'' 200"
  have h1: "msg_Verb ?m = VerbPatch"
    by (simp add: example_message_def VerbPatch_def)
  have h2: "\<not> failedRequest ?m"
    by (simp add: example_message_def failedRequest_def example_status_def)
  have h3: "msg_ObjectRef ?m = Some (example_objectRef ''99'')"
    by (simp add: example_message_def)
  have h4: "decodeResponseObject example_decorator ?m = Inr (Some example_partial)"
    by (simp add: decodeResponseObject_def example_message_def example_decorator_def)
  have h5: "ref_ResourceVersion (example_objectRef ''99'') \<noteq> pom_ResourceVersion example_partial"
    by (simp add: example_objectRef_def example_partial_def)
  from h5 have h5': "\<forall>obj. Some example_partial = Some obj \<longrightarrow>
      ref_ResourceVersion (example_objectRef ''99'') \<noteq> pom_ResourceVersion obj"
    by simp
  show ?thesis
    using tryDecorate_patch_filtered [OF h1 h2 h3 h4 h5', of example_event] h1 h2 h3 h4 h5
    by simp
qed

text \<open>
  Claim C2 as stated (outcome \<open>sameRv\<close>, no log added) fails on a successful update whose
  object reference and response object both carry resource version 100: the outcome is
  \<open>noopUpdate\<close> and the event, which had no log, has one.
\<close>

theorem tryDecorate_same_rv_counterexample:
  "cacheHitLabel (dr_cacheHit (tryDecorate example_decorator
      (example_message ''ResponseComplete'' ''update'' ''100'' 200) example_event)) = ''noopUpdate''
   \<and> cacheHitLabel (dr_cacheHit (tryDecorate example_decorator
      (example_message ''ResponseComplete'' ''update'' ''100'' 200) example_event)) \<noteq> ''sameRv''
   \<and> ev_Logs example_event = []
   \<and> ev_Logs (dr_event (tryDecorate example_decorator
      (example_message ''ResponseComplete'' ''update'' ''100'' 200) example_event))
       = [(LogTypeRealVerbose, ''No-op update'')]"
  by (simp add: tryDecorate_def example_message_def example_decorator_def example_event_def
      example_status_def example_objectRef_def example_partial_def failedRequest_def
      decodeResponseObject_def VerbUpdate_def VerbPatch_def returns_def Log_def NewEvent_def)

text \<open>
  Claim C2, amended. For every update or patch audit message whose response status is
  absent or below 300, whose object reference is present, whose response object decodes
  and whose object reference carries the resource version of the response object,
  \<open>tryDecorate\<close> returns at once with the outcome \<open>noopUpdate\<close> and no error, makes no
  call to the diff cache, and appends exactly one log to the event, the verbose log
  \<open>No-op update\<close>.
\<close>

theorem tryDecorate_noop_update:
  assumes "msg_Verb message = VerbUpdate \<or> msg_Verb message = VerbPatch"
    and "\<not> failedRequest message"
    and "msg_ObjectRef message = Some objectRef"
    and "decodeResponseObject env message = Inr (Some obj)"
    and "ref_ResourceVersion objectRef = pom_ResourceVersion obj"
  shows "tryDecorate env message event =
           \<lparr>dr_cacheHit = cacheHitTypeNoop, dr_err = None,
            dr_event = event\<lparr>ev_Logs := ev_Logs event @ [(LogTypeRealVerbose, ''No-op update'')]\<rparr>,
            dr_calls = [], dr_retryCount = None\<rparr>
         \<and> cacheHitLabel (dr_cacheHit (tryDecorate env message event)) = ''noopUpdate''"
  using assms
  by (auto simp add: tryDecorate_def returns_def Log_def split: option.splits)

text \<open>The hypotheses of the amended C2 hold for the update of the counterexample.\<close>

theorem tryDecorate_noop_update_witness:
  "(msg_Verb (example_message ''ResponseComplete'' ''update'' ''100'' 200) = VerbUpdate
      \<or> msg_Verb (example_message ''ResponseComplete'' ''update'' ''100'' 200) = VerbPatch)
   \<and> \<not> failedRequest (example_message ''ResponseComplete'' ''update'' ''100'' 200)
   \<and> msg_ObjectRef (example_message ''ResponseComplete'' ''update'' ''100'' 200)
        = Some (example_objectRef ''100'')
   \<and> decodeResponseObject example_decorator (example_message ''ResponseComplete'' ''update'' ''100'' 200)
        = Inr (Some example_partial)
   \<and> ref_ResourceVersion (example_objectRef ''100'') = pom_ResourceVersion example_partial
   \<and> dr_cacheHit (tryDecorate example_decorator
        (example_message ''ResponseComplete'' ''update'' ''100'' 200) example_event) = cacheHitTypeNoop
   \<and> dr_calls (tryDecorate example_decorator
        (example_message ''ResponseComplete'' ''update'' ''100'' 200) example_event) = []"
proof -
  let ?m = "example_message ''ResponseComplete'' ''update'' ''100'' 200"
  have h1: "msg_Verb ?m = VerbUpdate \<or> msg_Verb ?m = VerbPatch"
    by (simp add: example_message_def VerbUpdate_def)
  have h2: "\<not> failedRequest ?m"
    by (simp add: example_message_def failedRequest_def example_status_def)
  have h3: "msg_ObjectRef ?m = Some (example_objectRef ''100'')"
    by (simp add: example_message_def)
  have h4: "decodeResponseObject example_decorator ?m = Inr (Some example_partial)"
    by (simp add: decodeResponseObject_def example_message_def example_decorator_def)
  have h5: "ref_ResourceVersion (example_objectRef ''100'') = pom_ResourceVersion example_partial"
    by (simp add: example_objectRef_def example_partial_def)
  show ?thesis
    using tryDecorate_noop_update [OF h1 h2 h3 h4 h5, of example_event] h1 h2 h3 h4 h5
    by simp
qed

text \<open>
  The outcome \<open>sameRv\<close> is never returned: the test that guards it repeats the test of
  the no-op update, which has returned before.
\<close>

lemma pollCache_not_sameRv: "dr_cacheHit (pollCache env tryOnce call event) \<noteq> cacheHitTypeSameRv"
  by (simp add: pollCache_def split: prod.split)

lemma returns_cacheHit: "dr_cacheHit (returns hit err event) = hit"
  by (simp add: returns_def)

lemma tryDecorate_never_sameRv:
  "dr_cacheHit (tryDecorate env message event) \<noteq> cacheHitTypeSameRv"
proof (cases "failedRequest message")
  case True
  then show ?thesis
    by (auto simp add: tryDecorate_def failedRequest_def returns_cacheHit Let_def
        split: option.splits)
next
  case False
  show ?thesis
  proof (cases "msg_ObjectRef message")
    case None
    with False show ?thesis
      by (simp add: tryDecorate_def returns_cacheHit)
  next
    case (Some objectRef)
    show ?thesis
    proof (cases "decodeResponseObject env message")
      case (Inl err)
      with False Some show ?thesis
        by (simp add: tryDecorate_def returns_cacheHit)
    next
      case (Inr respObj)
      show ?thesis
      proof (cases respObj)
        case None
        with False Some Inr show ?thesis
          by (simp add: tryDecorate_def returns_cacheHit pollCache_not_sameRv Let_def
              split: option.split)
      next
        case (Some obj)
        with False \<open>msg_ObjectRef message = Some objectRef\<close> Inr show ?thesis
          by (simp add: tryDecorate_def returns_cacheHit pollCache_not_sameRv Let_def
              split: option.split)
      qed
    qed
  qed
qed

section \<open>Properties of the local message queue\<close>








section \<open>Properties of the diff API\<close>

lemma Atoi_5: "Atoi ''5'' = Some 5"
  by (simp add: Atoi_def isDigit_def)

lemma Atoi_empty: "Atoi '''' = None"
  by (simp add: Atoi_def)

text \<open>
  Claim C1, evaluated on the code. A scan request with \<open>?limit=5\<close> on an existing object
  calls \<open>DiffCache.List\<close> with limit 100, not 5, and answers 200 with 100 patches: the
  handler reads the query parameter named \<open>100\<close>, and it is a request with \<open>?100=5\<close> that
  calls \<open>List\<close> with limit 5.
\<close>

theorem handleScan_reads_parameter_100:
  "scan_listCalls (handleScan example_api example_params [''limit'' \<mapsto> [''5'']])
     = [(example_object, 100)]
   \<and> (\<exists>list. scan_response (handleScan example_api example_params [''limit'' \<mapsto> [''5'']])
                = Some (JSON 200 list) \<and> length list = 100)
   \<and> scan_listCalls (handleScan example_api example_params [''100'' \<mapsto> [''5'']])
     = [(example_object, 5)]"
proof -
  have q1: "Query [''limit'' \<mapsto> [''5'']] ''100'' = ''''"
    by (simp add: Query_def)
  have q2: "Query [''100'' \<mapsto> [''5'']] ''100'' = ''5''"
    by (simp add: Query_def)
  have c1: "scan_listCalls (handleScan example_api example_params [''limit'' \<mapsto> [''5'']])
     = [(example_object, 100)]"
    by (simp add: handleScan_def q1 Atoi_empty example_api_def example_params_def
        example_object_def)
  have c2: "scan_response (handleScan example_api example_params [''limit'' \<mapsto> [''5'']])
     = Some (JSON 200 (take 100 (map example_patch (rev [1..<151]))))"
    by (simp add: handleScan_def q1 Atoi_empty example_api_def example_params_def)
  have c3: "scan_listCalls (handleScan example_api example_params [''100'' \<mapsto> [''5'']])
     = [(example_object, 5)]"
    by (simp add: handleScan_def q2 Atoi_5 example_api_def example_params_def
        example_object_def)
  show ?thesis
    using c1 c2 c3 by simp
qed

section \<open>Properties of the audit consumer\<close>

text \<open>
  Claim C5. For every audit message whose stage is not \<open>ResponseComplete\<close>, or whose verb
  is none of create, update, patch and delete, \<open>handleItem\<close> returns without building an
  event and without calling \<open>Aggregator.Send\<close>.
\<close>

theorem handleItem_rejects_stage_and_verb:
  assumes "msg_Stage message \<noteq> StageResponseComplete
           \<or> msg_Verb message \<notin> {''create'', ''update'', ''patch'', ''delete''}"
  shows "handleItem recv message =
           \<lparr>item_event = None, item_sends = [], item_HasTrace = False, item_panicked = False\<rparr>"
  using assms
  by (auto simp add: handleItem_def dropped_def supportedVerbs_def VerbCreate_def VerbUpdate_def
      VerbDelete_def VerbPatch_def)

text \<open>
  The hypothesis of C5 holds for an update at stage \<open>RequestReceived\<close> and for a \<open>get\<close>
  at stage \<open>ResponseComplete\<close>.
\<close>

theorem handleItem_rejects_stage_and_verb_witness:
  "msg_Stage (example_message ''RequestReceived'' ''update'' ''99'' 200) \<noteq> StageResponseComplete
   \<and> item_event (handleItem example_receiver
        (example_message ''RequestReceived'' ''update'' ''99'' 200)) = None
   \<and> item_sends (handleItem example_receiver
        (example_message ''RequestReceived'' ''update'' ''99'' 200)) = []
   \<and> msg_Verb (example_message ''ResponseComplete'' ''get'' ''99'' 200)
        \<notin> {''create'', ''update'', ''patch'', ''delete''}
   \<and> item_event (handleItem example_receiver
        (example_message ''ResponseComplete'' ''get'' ''99'' 200)) = None
   \<and> item_sends (handleItem example_receiver
        (example_message ''ResponseComplete'' ''get'' ''99'' 200)) = []"
proof -
  have stage: "msg_Stage (example_message ''RequestReceived'' ''update'' ''99'' 200)
      \<noteq> StageResponseComplete"
    by (simp add: example_message_def StageResponseComplete_def)
  have verb: "msg_Verb (example_message ''ResponseComplete'' ''get'' ''99'' 200)
      \<notin> {''create'', ''update'', ''patch'', ''delete''}"
    by (simp add: example_message_def)
  have h1: "msg_Stage (example_message ''RequestReceived'' ''update'' ''99'' 200)
       \<noteq> StageResponseComplete
     \<or> msg_Verb (example_message ''RequestReceived'' ''update'' ''99'' 200)
          \<notin> {''create'', ''update'', ''patch'', ''delete''}"
    using stage by (rule disjI1)
  have h2: "msg_Stage (example_message ''ResponseComplete'' ''get'' ''99'' 200)
       \<noteq> StageResponseComplete
     \<or> msg_Verb (example_message ''ResponseComplete'' ''get'' ''99'' 200)
          \<notin> {''create'', ''update'', ''patch'', ''delete''}"
    using verb by (rule disjI2)
  show ?thesis
    using handleItem_rejects_stage_and_verb [OF h1, of example_receiver]
      handleItem_rejects_stage_and_verb [OF h2, of example_receiver] stage verb
    by simp
qed

section \<open>Properties of the diff controller\<close>

lemma storedPatches_append:
  "storedPatches (ws @ ws') = storedPatches ws @ storedPatches ws'"
  by (induction ws rule: storedPatches.induct) simp_all

lemma storedPatches_onNeedSnapshot:
  "storedPatches (onNeedSnapshot monitor obj name) = []"
  by (simp add: onNeedSnapshot_def Let_def)

text \<open>
  Claim C6. In \<open>onUpdate\<close> with different old and new resource versions, exactly one
  patch is stored, under the reference of the new object. If the old or the new object
  carries the redaction label, or its string \<open>g/v/r/ns/name\<close> matches the redact pattern,
  the patch has \<open>redacted = true\<close> and its diff list is the single entry
  \<open>(metadata.resourceVersion, oldRv, newRv)\<close>; otherwise it has \<open>redacted = false\<close> and its
  diff list is the structural diff of the two object bodies.
\<close>

theorem onUpdate_stores_patch:
  assumes "u_ResourceVersion oldObj \<noteq> u_ResourceVersion newObj"
  shows "\<exists>snapshots. storedPatches snapshots = []
           \<and> onUpdate monitor oldObj newObj =
               snapshots @
               [Store (ctrl_ObjectRefFromUnstructured (mon_ctrl monitor) newObj
                        (ctrl_ClusterName (mon_ctrl monitor)) (mon_gvr monitor))
                  (if LabelKeyRedacted \<in> dom (u_Labels oldObj)
                      \<or> ctrl_redactRegex (mon_ctrl monitor) (gvrnn monitor oldObj)
                      \<or> LabelKeyRedacted \<in> dom (u_Labels newObj)
                      \<or> ctrl_redactRegex (mon_ctrl monitor) (gvrnn monitor newObj)
                   then \<lparr>patch_InformerTime = ctrl_Now (mon_ctrl monitor),
                         patch_OldResourceVersion = u_ResourceVersion oldObj,
                         patch_NewResourceVersion = u_ResourceVersion newObj,
                         patch_Redacted = True,
                         patch_DiffList =
                           [\<lparr>diff_JsonPath = ''metadata.resourceVersion'',
                             diff_Old = AnyString (u_ResourceVersion oldObj),
                             diff_New = AnyString (u_ResourceVersion newObj)\<rparr>]\<rparr>
                   else \<lparr>patch_InformerTime = ctrl_Now (mon_ctrl monitor),
                         patch_OldResourceVersion = u_ResourceVersion oldObj,
                         patch_NewResourceVersion = u_ResourceVersion newObj,
                         patch_Redacted = False,
                         patch_DiffList =
                           ctrl_Compare (mon_ctrl monitor) (u_Object oldObj) (u_Object newObj)\<rparr>)]"
proof -
  let ?snapshot = "if ptrIsZero (u_DeletionTimestamp oldObj) \<and> \<not> ptrIsZero (u_DeletionTimestamp newObj)
               then onNeedSnapshot monitor newObj ''deletion'' else []"
  have none: "storedPatches ?snapshot = []"
    by (simp add: storedPatches_onNeedSnapshot)
  have red: "(testRedacted monitor oldObj \<or> testRedacted monitor newObj) =
        (LabelKeyRedacted \<in> dom (u_Labels oldObj)
         \<or> ctrl_redactRegex (mon_ctrl monitor) (gvrnn monitor oldObj)
         \<or> LabelKeyRedacted \<in> dom (u_Labels newObj)
         \<or> ctrl_redactRegex (mon_ctrl monitor) (gvrnn monitor newObj))"
    by (auto simp add: testRedacted_def Let_def dom_def)
  have "onUpdate monitor oldObj newObj = ?snapshot @
               [Store (ctrl_ObjectRefFromUnstructured (mon_ctrl monitor) newObj
                        (ctrl_ClusterName (mon_ctrl monitor)) (mon_gvr monitor))
                  (if testRedacted monitor oldObj \<or> testRedacted monitor newObj
                   then \<lparr>patch_InformerTime = ctrl_Now (mon_ctrl monitor),
                         patch_OldResourceVersion = u_ResourceVersion oldObj,
                         patch_NewResourceVersion = u_ResourceVersion newObj,
                         patch_Redacted = True,
                         patch_DiffList =
                           [\<lparr>diff_JsonPath = ''metadata.resourceVersion'',
                             diff_Old = AnyString (u_ResourceVersion oldObj),
                             diff_New = AnyString (u_ResourceVersion newObj)\<rparr>]\<rparr>
                   else \<lparr>patch_InformerTime = ctrl_Now (mon_ctrl monitor),
                         patch_OldResourceVersion = u_ResourceVersion oldObj,
                         patch_NewResourceVersion = u_ResourceVersion newObj,
                         patch_Redacted = False,
                         patch_DiffList =
                           ctrl_Compare (mon_ctrl monitor) (u_Object oldObj) (u_Object newObj)\<rparr>)]"
    using assms by (simp add: onUpdate_def Let_def)
  then show ?thesis
    using none unfolding red by blast
qed

text \<open>
  The hypothesis of C6 holds for a pod that goes from version 100 to 101 (not redacted)
  and for a secret that does the same (redacted by the pattern).
\<close>

theorem onUpdate_stores_patch_witness:
  "u_ResourceVersion (example_unstructured ''100'' ''a'')
     \<noteq> u_ResourceVersion (example_unstructured ''101'' ''b'')
   \<and> map patch_Redacted (storedPatches (onUpdate (example_monitor ''pods'')
        (example_unstructured ''100'' ''a'') (example_unstructured ''101'' ''b''))) = [False]
   \<and> map patch_Redacted (storedPatches (onUpdate (example_monitor ''secrets'')
        (example_unstructured ''100'' ''a'') (example_unstructured ''101'' ''b''))) = [True]"
proof -
  have h: "u_ResourceVersion (example_unstructured ''100'' ''a'')
     \<noteq> u_ResourceVersion (example_unstructured ''101'' ''b'')"
    by (simp add: example_unstructured_def)
  have pods: "\<not> ctrl_redactRegex (mon_ctrl (example_monitor ''pods''))
       (gvrnn (example_monitor ''pods'') obj)" for obj
    by (simp add: example_monitor_def example_controller_def gvrnn_def)
  have secrets: "ctrl_redactRegex (mon_ctrl (example_monitor ''secrets''))
       (gvrnn (example_monitor ''secrets'') obj)" for obj
    by (simp add: example_monitor_def example_controller_def gvrnn_def)
  have labels: "LabelKeyRedacted \<notin> dom (u_Labels (example_unstructured rv img))" for rv img
    by (simp add: example_unstructured_def)
  obtain s1 where s1: "storedPatches s1 = []"
    "onUpdate (example_monitor ''pods'')
        (example_unstructured ''100'' ''a'') (example_unstructured ''101'' ''b'') = s1 @ [Store
          (ctrl_ObjectRefFromUnstructured (mon_ctrl (example_monitor ''pods'')) (example_unstructured ''101'' ''b'')
                        (ctrl_ClusterName (mon_ctrl (example_monitor ''pods''))) (mon_gvr (example_monitor ''pods'')))
          \<lparr>patch_InformerTime = ctrl_Now (mon_ctrl (example_monitor ''pods'')),
                         patch_OldResourceVersion = u_ResourceVersion (example_unstructured ''100'' ''a''),
                         patch_NewResourceVersion = u_ResourceVersion (example_unstructured ''101'' ''b''),
                         patch_Redacted = False,
                         patch_DiffList =
                           ctrl_Compare (mon_ctrl (example_monitor ''pods'')) (u_Object (example_unstructured ''100'' ''a'')) (u_Object (example_unstructured ''101'' ''b''))\<rparr>]"
    using onUpdate_stores_patch [OF h, of "example_monitor ''pods''"] pods labels by auto
  obtain s2 where s2: "storedPatches s2 = []"
    "onUpdate (example_monitor ''secrets'')
        (example_unstructured ''100'' ''a'') (example_unstructured ''101'' ''b'') = s2 @ [Store
          (ctrl_ObjectRefFromUnstructured (mon_ctrl (example_monitor ''secrets'')) (example_unstructured ''101'' ''b'')
                        (ctrl_ClusterName (mon_ctrl (example_monitor ''secrets''))) (mon_gvr (example_monitor ''secrets'')))
          \<lparr>patch_InformerTime = ctrl_Now (mon_ctrl (example_monitor ''secrets'')),
                         patch_OldResourceVersion = u_ResourceVersion (example_unstructured ''100'' ''a''),
                         patch_NewResourceVersion = u_ResourceVersion (example_unstructured ''101'' ''b''),
                         patch_Redacted = True,
                         patch_DiffList =
                           [\<lparr>diff_JsonPath = ''metadata.resourceVersion'',
                             diff_Old = AnyString (u_ResourceVersion (example_unstructured ''100'' ''a'')),
                             diff_New = AnyString (u_ResourceVersion (example_unstructured ''101'' ''b''))\<rparr>]\<rparr>]"
    using onUpdate_stores_patch [OF h, of "example_monitor ''secrets''"] secrets by auto
  show ?thesis
    using h by (simp add: s1 s2 storedPatches_append)
qed

section \<open>Properties of the redirect server\<close>

lemma Truncate_half_hour: "Truncate t (Minute * 30) = t - t mod (Minute * 30)"
proof -
  have "(Minute * 30) dvd zeroTime"
    by (simp add: Minute_def Second_def zeroTime_def)
  then have "(t - zeroTime) mod (Minute * 30) = t mod (Minute * 30)"
    by (simp add: dvd_eq_mod_eq_0 flip: mod_diff_right_eq)
  then show ?thesis
    by (simp add: Truncate_def Minute_def Second_def)
qed

lemma responseStatus_fails: "responseStatus (fails code err label queries) = Some code"
  by (simp add: responseStatus_def fails_def)

lemma rr_queries_fails: "rr_queries (fails code err label queries) = queries"
  by (simp add: fails_def)

lemma handleGet_empty_param:
  assumes "Query query ''cluster'' = '''' \<or> Query query ''resource'' = ''''
           \<or> Query query ''name'' = ''''"
  shows "handleGet server query = fails 400 EmptyParam ''EmptyParam'' []"
  using assms by (auto simp add: handleGet_def Let_def)

lemma handleGet_unknown_cluster:
  assumes "Query query ''cluster'' \<noteq> ''''" and "Query query ''resource'' \<noteq> ''''"
    and "Query query ''name'' \<noteq> ''''"
    and "\<not> hasCluster server (Query query ''cluster'')"
  shows "handleGet server query =
           fails 404 (UnknownCluster (Query query ''cluster'')) ''UnknownCluster'' []"
  using assms by (simp add: handleGet_def Let_def)

lemma handleGet_invalid_timestamp:
  assumes "Query query ''cluster'' \<noteq> ''''" and "Query query ''resource'' \<noteq> ''''"
    and "Query query ''name'' \<noteq> ''''"
    and "hasCluster server (Query query ''cluster'')"
    and "srv_ParseRFC3339 server (Query query ''ts'') = Inl err"
  shows "handleGet server query = fails 400 (InvalidTimestamp err) ''InvalidTimestamp'' []"
  using assms by (simp add: handleGet_def Let_def)

lemma traceQuery_window:
  "tq_StartTimeMin (traceQuery server cluster resource namespace name timestamp)
     = timestamp - timestamp mod (Minute * 30)
   \<and> tq_StartTimeMax (traceQuery server cluster resource namespace name timestamp)
     = timestamp - timestamp mod (Minute * 30) + Minute * 30
   \<and> tq_ServiceName (traceQuery server cluster resource namespace name timestamp)
     = srv_DefaultName server
   \<and> tq_OperationName (traceQuery server cluster resource namespace name timestamp) = cluster
   \<and> tq_Tags (traceQuery server cluster resource namespace name timestamp) ''resource''
     = Some resource
   \<and> tq_Tags (traceQuery server cluster resource namespace name timestamp) ''name'' = Some name
   \<and> tq_Tags (traceQuery server cluster resource namespace name timestamp) ''namespace''
     = (if namespace = '''' then None else Some namespace)"
  by (simp add: traceQuery_def Let_def Truncate_half_hour)

lemma handleGet_search:
  assumes "Query query ''cluster'' \<noteq> ''''" and "Query query ''resource'' \<noteq> ''''"
    and "Query query ''name'' \<noteq> ''''"
    and "hasCluster server (Query query ''cluster'')"
    and "srv_ParseRFC3339 server (Query query ''ts'') = Inr timestamp"
    and "parameters = traceQuery server (Query query ''cluster'') (Query query ''resource'')
           (Query query ''namespace'') (Query query ''name'') timestamp"
  shows "rr_queries (handleGet server query) = [parameters]
         \<and> (case srv_FindTraceIDs server parameters of
               Inl err \<Rightarrow> responseStatus (handleGet server query) = Some 500
             | Inr [] \<Rightarrow>
                 responseStatus (handleGet server query) = Some 200
                 \<and> rr_written (handleGet server query)
                     = Some (WroteJSON 200 (emptyTrace (Query query ''cluster'')
                         (Query query ''resource'') (Query query ''namespace'')
                         (Query query ''name'') timestamp))
             | Inr [traceID] \<Rightarrow>
                 responseStatus (handleGet server query) = Some 302
                 \<and> rr_written (handleGet server query)
                     = Some (WroteRedirect 302 (''/trace/'' @ srv_String server traceID))
             | Inr (traceID # traceID2 # traceIDs) \<Rightarrow>
                 responseStatus (handleGet server query) = Some 500)"
  using assms
  by (simp add: handleGet_def Let_def responseStatus_def fails_def
      split: sum.splits list.splits)

text \<open>
  Claim C7 as stated fails for a request whose \<open>ts\<close> does not parse and whose cluster is
  not known: the answer is 404, not 400, since the cluster is looked up before the
  timestamp is parsed.
\<close>

theorem handleGet_bad_timestamp_counterexample:
  "srv_ParseRFC3339 example_server (Query (example_query ''clusterb'' ''p1'' ''yesterday'') ''ts'')
     = Inl ''cannot parse''
   \<and> responseStatus (handleGet example_server (example_query ''clusterb'' ''p1'' ''yesterday''))
     = Some 404"
  by (simp add: handleGet_def Let_def example_query_def example_server_def Query_def
      hasCluster_def responseStatus_fails)

text \<open>
  Claim C7, amended. For every GET /redirect request: if cluster, resource or name is
  empty, the answer is 400; otherwise, if the cluster is not known, the answer is 404;
  otherwise, if \<open>ts\<close> does not parse as RFC 3339, the answer is 400; in these three cases
  the trace store is not searched. Otherwise the handler searches the trace store once,
  over the window from \<open>ts\<close> rounded down to a multiple of 30 minutes to 30 minutes
  later; it answers 500 when the search fails, 200 with the made-up trace of a single span
  when no trace identifier matches, 302 to \<open>/trace/<id>\<close> when exactly one matches, and
  500 when more than one match.
\<close>

theorem handleGet_responses:
  "(Query query ''cluster'' = '''' \<or> Query query ''resource'' = '''' \<or> Query query ''name'' = ''''
      \<longrightarrow> responseStatus (handleGet server query) = Some 400
          \<and> rr_queries (handleGet server query) = [])
   \<and> (Query query ''cluster'' \<noteq> '''' \<and> Query query ''resource'' \<noteq> ''''
        \<and> Query query ''name'' \<noteq> '''' \<longrightarrow>
       (\<not> hasCluster server (Query query ''cluster'')
          \<longrightarrow> responseStatus (handleGet server query) = Some 404
              \<and> rr_queries (handleGet server query) = [])
       \<and> (hasCluster server (Query query ''cluster'') \<longrightarrow>
           (case srv_ParseRFC3339 server (Query query ''ts'') of
              Inl err \<Rightarrow>
                responseStatus (handleGet server query) = Some 400
                \<and> rr_queries (handleGet server query) = []
            | Inr timestamp \<Rightarrow>
                rr_queries (handleGet server query)
                  = [traceQuery server (Query query ''cluster'') (Query query ''resource'')
                       (Query query ''namespace'') (Query query ''name'') timestamp]
                \<and> tq_StartTimeMin (traceQuery server (Query query ''cluster'')
                       (Query query ''resource'') (Query query ''namespace'')
                       (Query query ''name'') timestamp)
                    = timestamp - timestamp mod (Minute * 30)
                \<and> tq_StartTimeMax (traceQuery server (Query query ''cluster'')
                       (Query query ''resource'') (Query query ''namespace'')
                       (Query query ''name'') timestamp)
                    = timestamp - timestamp mod (Minute * 30) + Minute * 30
                \<and> (case srv_FindTraceIDs server
                           (traceQuery server (Query query ''cluster'') (Query query ''resource'')
                             (Query query ''namespace'') (Query query ''name'') timestamp) of
                      Inl err \<Rightarrow> responseStatus (handleGet server query) = Some 500
                    | Inr [] \<Rightarrow>
                        responseStatus (handleGet server query) = Some 200
                        \<and> rr_written (handleGet server query)
                            = Some (WroteJSON 200 (emptyTrace (Query query ''cluster'')
                                (Query query ''resource'') (Query query ''namespace'')
                                (Query query ''name'') timestamp))
                        \<and> length (trace_Spans (emptyTrace (Query query ''cluster'')
                                (Query query ''resource'') (Query query ''namespace'')
                                (Query query ''name'') timestamp)) = 1
                    | Inr [traceID] \<Rightarrow>
                        responseStatus (handleGet server query) = Some 302
                        \<and> rr_written (handleGet server query)
                            = Some (WroteRedirect 302 (''/trace/'' @ srv_String server traceID))
                    | Inr (traceID # traceID2 # traceIDs) \<Rightarrow>
                        responseStatus (handleGet server query) = Some 500))))"
proof (intro conjI impI)
  assume "Query query ''cluster'' = '''' \<or> Query query ''resource'' = ''''
    \<or> Query query ''name'' = ''''"
  then have "handleGet server query = fails 400 EmptyParam ''EmptyParam'' []"
    by (rule handleGet_empty_param)
  then show "responseStatus (handleGet server query) = Some 400"
    and "rr_queries (handleGet server query) = []"
    by (simp_all add: responseStatus_fails rr_queries_fails)
next
  assume ne: "Query query ''cluster'' \<noteq> '''' \<and> Query query ''resource'' \<noteq> ''''
        \<and> Query query ''name'' \<noteq> ''''"
    and unknown: "\<not> hasCluster server (Query query ''cluster'')"
  then have "handleGet server query =
      fails 404 (UnknownCluster (Query query ''cluster'')) ''UnknownCluster'' []"
    by (simp add: handleGet_unknown_cluster)
  then show "responseStatus (handleGet server query) = Some 404"
    and "rr_queries (handleGet server query) = []"
    by (simp_all add: responseStatus_fails rr_queries_fails)
next
  assume ne: "Query query ''cluster'' \<noteq> '''' \<and> Query query ''resource'' \<noteq> ''''
        \<and> Query query ''name'' \<noteq> ''''"
    and known: "hasCluster server (Query query ''cluster'')"
  show "case srv_ParseRFC3339 server (Query query ''ts'') of
              Inl err \<Rightarrow>
                responseStatus (handleGet server query) = Some 400
                \<and> rr_queries (handleGet server query) = []
            | Inr timestamp \<Rightarrow>
                rr_queries (handleGet server query)
                  = [traceQuery server (Query query ''cluster'') (Query query ''resource'')
                       (Query query ''namespace'') (Query query ''name'') timestamp]
                \<and> tq_StartTimeMin (traceQuery server (Query query ''cluster'')
                       (Query query ''resource'') (Query query ''namespace'')
                       (Query query ''name'') timestamp)
                    = timestamp - timestamp mod (Minute * 30)
                \<and> tq_StartTimeMax (traceQuery server (Query query ''cluster'')
                       (Query query ''resource'') (Query query ''namespace'')
                       (Query query ''name'') timestamp)
                    = timestamp - timestamp mod (Minute * 30) + Minute * 30
                \<and> (case srv_FindTraceIDs server
                           (traceQuery server (Query query ''cluster'') (Query query ''resource'')
                             (Query query ''namespace'') (Query query ''name'') timestamp) of
                      Inl err \<Rightarrow> responseStatus (handleGet server query) = Some 500
                    | Inr [] \<Rightarrow>
                        responseStatus (handleGet server query) = Some 200
                        \<and> rr_written (handleGet server query)
                            = Some (WroteJSON 200 (emptyTrace (Query query ''cluster'')
                                (Query query ''resource'') (Query query ''namespace'')
                                (Query query ''name'') timestamp))
                        \<and> length (trace_Spans (emptyTrace (Query query ''cluster'')
                                (Query query ''resource'') (Query query ''namespace'')
                                (Query query ''name'') timestamp)) = 1
                    | Inr [traceID] \<Rightarrow>
                        responseStatus (handleGet server query) = Some 302
                        \<and> rr_written (handleGet server query)
                            = Some (WroteRedirect 302 (''/trace/'' @ srv_String server traceID))
                    | Inr (traceID # traceID2 # traceIDs) \<Rightarrow>
                        responseStatus (handleGet server query) = Some 500)"
  proof (cases "srv_ParseRFC3339 server (Query query ''ts'')")
    case (Inl err)
    with ne known have "handleGet server query =
        fails 400 (InvalidTimestamp err) ''InvalidTimestamp'' []"
      by (simp add: handleGet_invalid_timestamp)
    with Inl show ?thesis
      by (simp add: responseStatus_fails rr_queries_fails)
  next
    case (Inr timestamp)
    with ne known show ?thesis
      using handleGet_search [of query server timestamp, OF _ _ _ _ _ refl]
      by (simp add: traceQuery_window emptyTrace_def split: sum.splits list.splits)
  qed
qed

text \<open>
  The cases of the amended C7 on the concrete server: an empty name, an unknown cluster,
  a timestamp that does not parse, and one, no and two matching traces in the half hour
  from 12:00 to 12:30.
\<close>

theorem handleGet_responses_witness:
  "responseStatus (handleGet example_server
      (example_query ''clustera'' '''' ''2024-01-01T12:07:00Z'')) = Some 400
   \<and> responseStatus (handleGet example_server
      (example_query ''clusterb'' ''p1'' ''2024-01-01T12:07:00Z'')) = Some 404
   \<and> responseStatus (handleGet example_server
      (example_query ''clustera'' ''p1'' ''yesterday'')) = Some 400
   \<and> rr_written (handleGet example_server
      (example_query ''clustera'' ''p1'' ''2024-01-01T12:07:00Z''))
        = Some (WroteRedirect 302 ''/trace/0af7'')
   \<and> map tq_StartTimeMin (rr_queries (handleGet example_server
      (example_query ''clustera'' ''p1'' ''2024-01-01T12:07:00Z''))) = [1704110400 * Second]
   \<and> map tq_StartTimeMax (rr_queries (handleGet example_server
      (example_query ''clustera'' ''p1'' ''2024-01-01T12:07:00Z''))) = [1704112200 * Second]
   \<and> responseStatus (handleGet example_server
      (example_query ''clustera'' ''p2'' ''2024-01-01T12:07:00Z'')) = Some 200
   \<and> responseStatus (handleGet example_server
      (example_query ''clustera'' ''p3'' ''2024-01-01T12:07:00Z'')) = Some 500"
proof -
  have q: "Query (example_query cluster name ts) ''cluster'' = cluster"
    "Query (example_query cluster name ts) ''resource'' = ''pods''"
    "Query (example_query cluster name ts) ''namespace'' = ''default''"
    "Query (example_query cluster name ts) ''name'' = name"
    "Query (example_query cluster name ts) ''ts'' = ts" for cluster name ts
    by (simp_all add: example_query_def Query_def)
  have known: "hasCluster example_server ''clustera''"
    and unknown: "\<not> hasCluster example_server ''clusterb''"
    by (simp_all add: hasCluster_def example_server_def)
  have good: "srv_ParseRFC3339 example_server ''2024-01-01T12:07:00Z'' = Inr example_ts"
    and bad: "srv_ParseRFC3339 example_server ''yesterday'' = Inl ''cannot parse''"
    by (simp_all add: example_server_def)
  have found: "srv_FindTraceIDs example_server
        (traceQuery example_server ''clustera'' ''pods'' ''default'' ''p1'' example_ts)
          = Inr [''0af7'']"
    "srv_FindTraceIDs example_server
        (traceQuery example_server ''clustera'' ''pods'' ''default'' ''p2'' example_ts) = Inr []"
    "srv_FindTraceIDs example_server
        (traceQuery example_server ''clustera'' ''pods'' ''default'' ''p3'' example_ts)
          = Inr [''0af7'', ''0af8'']"
    by (simp_all add: example_server_def traceQuery_def Let_def)
  have window: "example_ts - example_ts mod (Minute * 30) = 1704110400 * Second"
    by (simp add: example_ts_def Minute_def Second_def)
  have c1: "responseStatus (handleGet example_server
      (example_query ''clustera'' '''' ''2024-01-01T12:07:00Z'')) = Some 400"
    using handleGet_responses [of "example_query ''clustera'' '''' ''2024-01-01T12:07:00Z''"
        example_server]
    by (simp add: q)
  have c2: "responseStatus (handleGet example_server
      (example_query ''clusterb'' ''p1'' ''2024-01-01T12:07:00Z'')) = Some 404"
    using handleGet_responses [of "example_query ''clusterb'' ''p1'' ''2024-01-01T12:07:00Z''"
        example_server] unknown
    by (simp add: q)
  have c3: "responseStatus (handleGet example_server
      (example_query ''clustera'' ''p1'' ''yesterday'')) = Some 400"
    using handleGet_responses [of "example_query ''clustera'' ''p1'' ''yesterday''"
        example_server] known bad
    by (simp add: q)
  have c4: "rr_written (handleGet example_server
      (example_query ''clustera'' ''p1'' ''2024-01-01T12:07:00Z''))
        = Some (WroteRedirect 302 ''/trace/0af7'')
     \<and> map tq_StartTimeMin (rr_queries (handleGet example_server
      (example_query ''clustera'' ''p1'' ''2024-01-01T12:07:00Z''))) = [1704110400 * Second]
     \<and> map tq_StartTimeMax (rr_queries (handleGet example_server
      (example_query ''clustera'' ''p1'' ''2024-01-01T12:07:00Z''))) = [1704112200 * Second]"
    using handleGet_responses [of "example_query ''clustera'' ''p1'' ''2024-01-01T12:07:00Z''"
        example_server] known good found(1) window
    by (simp add: q) (simp add: example_server_def Minute_def Second_def)
  have c5: "responseStatus (handleGet example_server
      (example_query ''clustera'' ''p2'' ''2024-01-01T12:07:00Z'')) = Some 200"
    using handleGet_responses [of "example_query ''clustera'' ''p2'' ''2024-01-01T12:07:00Z''"
        example_server] known good found(2)
    by (simp add: q)
  have c6: "responseStatus (handleGet example_server
      (example_query ''clustera'' ''p3'' ''2024-01-01T12:07:00Z'')) = Some 500"
    using handleGet_responses [of "example_query ''clustera'' ''p3'' ''2024-01-01T12:07:00Z''"
        example_server] known good found(3)
    by (simp add: q)
  show ?thesis
    using c1 c2 c3 c4 c5 c6 by simp
qed

section \<open>Properties of the event informer\<close>

lemma floor_second_mono:
  assumes "b mod Second = 0" and "b \<le> w" and "w < T"
  shows "b \<le> T - T mod Second"
proof -
  have pos: "0 < Second"
    by (simp add: Second_def)
  from assms(1) have "b = Second * (b div Second)"
    by (simp add: mod_eq_0_iff_dvd)
  moreover have "b div Second \<le> T div Second"
    using assms(2,3) pos by (intro zdiv_mono1) simp_all
  then have "Second * (b div Second) \<le> Second * (T div Second)"
    using pos by simp
  moreover have "T - T mod Second = Second * (T div Second)"
    by (simp add: minus_mod_eq_mult_div)
  ultimately show ?thesis
    by simp
qed

lemma watermark_updater:
  assumes "cm_Data cm = Some d"
    and "Parse lib (Format lib T) = Inr (T - T mod Second)"
  shows "\<exists>cm' d'. updater lib T cm = Some cm' \<and> cm_Data cm' = Some d'
           \<and> watermark lib cm' =
               (case watermark lib cm of
                  None \<Rightarrow> Some (T - T mod Second)
                | Some w \<Rightarrow> if w < T then Some (T - T mod Second) else Some w)"
  using assms
  by (auto simp add: updater_def watermark_def dataAt_def Before_def split: sum.splits)

text \<open>A whole-second lower bound of the watermark survives an updater, and the loop.\<close>

lemma updater_keeps_bound:
  assumes "cm_Data cm = Some d"
    and "Parse lib (Format lib T) = Inr (T - T mod Second)"
    and "watermark lib cm = Some w" and "b \<le> w" and "b mod Second = 0"
  shows "\<exists>cm' d' w'. updater lib T cm = Some cm' \<and> cm_Data cm' = Some d'
           \<and> watermark lib cm' = Some w' \<and> b \<le> w'"
proof -
  obtain cm' d' where step: "updater lib T cm = Some cm'" "cm_Data cm' = Some d'"
    "watermark lib cm' = (if w < T then Some (T - T mod Second) else Some w)"
    using watermark_updater [OF assms(1,2)] assms(3) by auto
  show ?thesis
  proof (cases "w < T")
    case True
    then have "b \<le> T - T mod Second"
      using floor_second_mono [OF assms(5,4)] by simp
    with step True show ?thesis by simp
  next
    case False
    with step assms(4) show ?thesis by simp
  qed
qed

lemma updater_reaches:
  assumes "cm_Data cm = Some d"
    and "Parse lib (Format lib T) = Inr (T - T mod Second)"
  shows "\<exists>cm' d' w'. updater lib T cm = Some cm' \<and> cm_Data cm' = Some d'
           \<and> watermark lib cm' = Some w' \<and> T - T mod Second \<le> w'"
proof -
  obtain cm' d' where step: "updater lib T cm = Some cm'" "cm_Data cm' = Some d'"
    "watermark lib cm' =
       (case watermark lib cm of
          None \<Rightarrow> Some (T - T mod Second)
        | Some w \<Rightarrow> if w < T then Some (T - T mod Second) else Some w)"
    using watermark_updater [OF assms] by auto
  have "T mod Second \<ge> 0"
    by (simp add: Second_def)
  then have "T - T mod Second \<le> T"
    by simp
  with step show ?thesis
    by (cases "watermark lib cm") auto
qed

lemma pollConfigLoop_keeps_bound:
  assumes "cm_Data cm = Some d"
    and "\<forall>T\<in>set updates. Parse lib (Format lib T) = Inr (T - T mod Second)"
    and "watermark lib cm = Some w" and "b \<le> w" and "b mod Second = 0"
  shows "\<exists>cm' d' w'. pollConfigLoop lib updates cm = Some cm' \<and> cm_Data cm' = Some d'
           \<and> watermark lib cm' = Some w' \<and> b \<le> w'"
  using assms
proof (induction updates arbitrary: cm d w)
  case Nil
  then show ?case by simp
next
  case (Cons T updates)
  from Cons.prems have rt: "Parse lib (Format lib T) = Inr (T - T mod Second)"
    by simp
  obtain cm1 d1 w1 where step: "updater lib T cm = Some cm1" "cm_Data cm1 = Some d1"
    "watermark lib cm1 = Some w1" "b \<le> w1"
    using updater_keeps_bound [OF Cons.prems(1) rt Cons.prems(3,4,5)] by blast
  from Cons.prems(2) have rest: "\<forall>T\<in>set updates. Parse lib (Format lib T) = Inr (T - T mod Second)"
    by simp
  show ?case
    using Cons.IH [OF step(2) rest step(3,4) Cons.prems(5)] step(1) by simp
qed

lemma pollConfigLoop_reaches:
  assumes "cm_Data cm = Some d"
    and "\<forall>T\<in>set updates. Parse lib (Format lib T) = Inr (T - T mod Second)"
  shows "\<exists>cm' d'. pollConfigLoop lib updates cm = Some cm' \<and> cm_Data cm' = Some d'
           \<and> (\<forall>T\<in>set updates. \<exists>w'. watermark lib cm' = Some w' \<and> T - T mod Second \<le> w')"
  using assms
proof (induction updates arbitrary: cm d)
  case Nil
  then show ?case by simp
next
  case (Cons T updates)
  from Cons.prems have rt: "Parse lib (Format lib T) = Inr (T - T mod Second)"
    by simp
  from Cons.prems(2) have rest: "\<forall>T\<in>set updates. Parse lib (Format lib T) = Inr (T - T mod Second)"
    by simp
  obtain cm1 d1 w1 where step: "updater lib T cm = Some cm1" "cm_Data cm1 = Some d1"
    "watermark lib cm1 = Some w1" "T - T mod Second \<le> w1"
    using updater_reaches [OF Cons.prems(1) rt] by blast
  obtain cm' d' where loop: "pollConfigLoop lib updates cm1 = Some cm'" "cm_Data cm' = Some d'"
    "\<forall>T\<in>set updates. \<exists>w'. watermark lib cm' = Some w' \<and> T - T mod Second \<le> w'"
    using Cons.IH [OF step(2) rest] by blast
  have whole: "(T - T mod Second) mod Second = 0"
    by simp
  obtain w' where first: "watermark lib cm' = Some w'" "T - T mod Second \<le> w'"
    using pollConfigLoop_keeps_bound [OF step(2) rest step(3,4) whole] loop(1) by auto
  show ?case
    using step(1) loop first by auto
qed

lemma handleEvent_before_restart:
  assumes "ec_isLeader ctrl \<noteq> 0"
    and "eventTime = (if IsZero (e_EventTime event) then e_LastTimestamp event
                      else e_EventTime event)"
    and "\<not> IsZero eventTime" and "eventTime < ec_lastEventTime ctrl"
  shows "he_Error (handleEvent ctrl event) = Some ''BeforeRestart''
         \<and> he_updates (handleEvent ctrl event) = []
         \<and> he_sends (handleEvent ctrl event) = []"
  using assms by (simp add: handleEvent_def Let_def ends_def Before_def)

lemma handleEvent_updates:
  assumes "eventTime = (if IsZero (e_EventTime event) then e_LastTimestamp event
                        else e_EventTime event)"
  shows "he_updates (handleEvent ctrl event) = []
         \<or> he_updates (handleEvent ctrl event) = [eventTime]"
  using assms
  by (simp add: handleEvent_def Let_def ends_def split: sum.splits option.splits)

lemma handleEvent_enqueues:
  assumes "ec_isLeader ctrl \<noteq> 0"
    and "eventTime = (if IsZero (e_EventTime event) then e_LastTimestamp event
                      else e_EventTime event)"
    and "\<not> IsZero eventTime" and "ec_lastEventTime ctrl \<le> eventTime"
    and "Sub (ec_Now ctrl) eventTime \<le> 5 * Minute"
  shows "he_updates (handleEvent ctrl event) = [eventTime]"
  using assms
  by (simp add: handleEvent_def Let_def ends_def Before_def split: sum.splits option.splits)

text \<open>
  Claim C8 as stated fails for an event time with a fraction of a second. The controller
  has loaded the watermark 12:07:00 and the clock shows 12:07:02; the event of 12:07:00.5
  enqueues its updater, and the updater leaves the persisted timestamp at 12:07:00, which
  is lower than the event time.
\<close>

theorem watermark_below_event_time_counterexample:
  "he_updates (handleEvent (example_event_controller (example_ts + 2 * Second))
      (example_k8sEvent (example_ts + 500000000))) = [example_ts + 500000000]
   \<and> map_option (watermark example_rfc3339)
        (pollConfigLoop example_rfc3339 [example_ts + 500000000] example_configMap)
       = Some (Some example_ts)
   \<and> example_ts < example_ts + 500000000"
  by code_simp

text \<open>
  Claim C8, amended. The timestamp is persisted in whole seconds, so the watermark
  follows the event times rounded down to the second. (1) The updater of an event time
  \<open>T\<close> sets the persisted timestamp to \<open>T\<close> formatted, and only when the stored value
  does not parse or is earlier than \<open>T\<close>. (2) Applied to a ConfigMap with data, any
  sequence of such updaters leaves a watermark that is no lower than each \<open>T\<close> of the
  sequence rounded down to the second and, if the watermark was a whole number of seconds
  before, no lower than it was. (3) While the controller is the leader, an event whose
  timestamp (the event time or, if that is zero, the last timestamp) is not zero and is
  earlier than the watermark loaded at startup is dropped with the outcome
  \<open>BeforeRestart\<close>, with no updater enqueued and nothing sent; an event enqueues at most
  the updater of its own timestamp, and it does enqueue it when the timestamp is not
  before the loaded watermark and not older than five minutes.
\<close>

theorem watermark_advances:
  assumes "cm_Data configMap = Some d"
    and "\<forall>T\<in>set updates. Parse lib (Format lib T) = Inr (T - T mod Second)"
    and "eventTime = (if IsZero (e_EventTime event) then e_LastTimestamp event
                      else e_EventTime event)"
  shows "updater lib T configMap =
           Some (if (case Parse lib (dataAt configMap configMapLastEventKey) of
                       Inl err \<Rightarrow> True
                     | Inr t \<Rightarrow> t < T)
                 then configMap\<lparr>cm_Data := Some (d(configMapLastEventKey \<mapsto> Format lib T))\<rparr>
                 else configMap)
         \<and> (\<exists>configMap'. pollConfigLoop lib updates configMap = Some configMap'
               \<and> (\<forall>T\<in>set updates. \<exists>w'. watermark lib configMap' = Some w'
                                          \<and> T - T mod Second \<le> w')
               \<and> (\<forall>w. watermark lib configMap = Some w \<and> w mod Second = 0
                      \<longrightarrow> (\<exists>w'. watermark lib configMap' = Some w' \<and> w \<le> w')))
         \<and> (ec_isLeader ctrl \<noteq> 0 \<and> \<not> IsZero eventTime \<and> eventTime < ec_lastEventTime ctrl
              \<longrightarrow> he_Error (handleEvent ctrl event) = Some ''BeforeRestart''
                  \<and> he_updates (handleEvent ctrl event) = []
                  \<and> he_sends (handleEvent ctrl event) = [])
         \<and> (he_updates (handleEvent ctrl event) = []
              \<or> he_updates (handleEvent ctrl event) = [eventTime])
         \<and> (ec_isLeader ctrl \<noteq> 0 \<and> \<not> IsZero eventTime \<and> ec_lastEventTime ctrl \<le> eventTime
                \<and> Sub (ec_Now ctrl) eventTime \<le> 5 * Minute
              \<longrightarrow> he_updates (handleEvent ctrl event) = [eventTime])"
proof -
  have one: "updater lib T configMap =
           Some (if (case Parse lib (dataAt configMap configMapLastEventKey) of
                       Inl err \<Rightarrow> True
                     | Inr t \<Rightarrow> t < T)
                 then configMap\<lparr>cm_Data := Some (d(configMapLastEventKey \<mapsto> Format lib T))\<rparr>
                 else configMap)"
    using assms(1) by (simp add: updater_def Before_def split: sum.splits)
  obtain configMap' d' where loop: "pollConfigLoop lib updates configMap = Some configMap'"
    "cm_Data configMap' = Some d'"
    "\<forall>T\<in>set updates. \<exists>w'. watermark lib configMap' = Some w' \<and> T - T mod Second \<le> w'"
    using pollConfigLoop_reaches [OF assms(1,2)] by blast
  have mono: "\<exists>w'. watermark lib configMap' = Some w' \<and> w \<le> w'"
    if "watermark lib configMap = Some w" and "w mod Second = 0" for w
    using pollConfigLoop_keeps_bound [OF assms(1,2) that(1) order_refl that(2)] loop(1)
    by auto
  have two: "\<exists>configMap'. pollConfigLoop lib updates configMap = Some configMap'
               \<and> (\<forall>T\<in>set updates. \<exists>w'. watermark lib configMap' = Some w'
                                          \<and> T - T mod Second \<le> w')
               \<and> (\<forall>w. watermark lib configMap = Some w \<and> w mod Second = 0
                      \<longrightarrow> (\<exists>w'. watermark lib configMap' = Some w' \<and> w \<le> w'))"
  proof (rule exI [of _ configMap'], intro conjI allI impI)
    show "pollConfigLoop lib updates configMap = Some configMap'"
      by (rule loop(1))
    show "\<forall>T\<in>set updates. \<exists>w'. watermark lib configMap' = Some w'
                                          \<and> T - T mod Second \<le> w'"
      by (rule loop(3))
    show "\<exists>w'. watermark lib configMap' = Some w' \<and> w \<le> w'"
      if "watermark lib configMap = Some w \<and> w mod Second = 0" for w
      using that mono by simp
  qed
  show ?thesis
    using one two handleEvent_before_restart [OF _ assms(3), of ctrl]
      handleEvent_updates [OF assms(3), of ctrl]
      handleEvent_enqueues [OF _ assms(3), of ctrl]
    by blast
qed

text \<open>
  The amended C8 on the concrete library: the watermark 12:07:00 and the updaters of
  12:07:00.5 and 12:07:01.5 leave a watermark of 12:07:01 or later; the event of one
  nanosecond before 12:07:00 is dropped, and the event of 12:07:00.5 enqueues its updater.
\<close>

theorem watermark_advances_witness:
  "cm_Data example_configMap = Some [''timestamp'' \<mapsto> ''2024-01-01T12:07:00Z'']
   \<and> Parse example_rfc3339 (Format example_rfc3339 (example_ts + 500000000)) = Inr example_ts
   \<and> Parse example_rfc3339 (Format example_rfc3339 (example_ts + 1500000000))
        = Inr (example_ts + Second)
   \<and> watermark example_rfc3339 example_configMap = Some example_ts
   \<and> (\<exists>configMap' w'.
         pollConfigLoop example_rfc3339 [example_ts + 500000000, example_ts + 1500000000]
           example_configMap = Some configMap'
         \<and> watermark example_rfc3339 configMap' = Some w'
         \<and> example_ts + Second \<le> w' \<and> example_ts \<le> w')
   \<and> he_Error (handleEvent (example_event_controller (example_ts + 2 * Second))
        (example_k8sEvent (example_ts - 1))) = Some ''BeforeRestart''
   \<and> he_updates (handleEvent (example_event_controller (example_ts + 2 * Second))
        (example_k8sEvent (example_ts - 1))) = []
   \<and> he_updates (handleEvent (example_event_controller (example_ts + 2 * Second))
        (example_k8sEvent (example_ts + 500000000))) = [example_ts + 500000000]"
proof -
  have data: "cm_Data example_configMap = Some [''timestamp'' \<mapsto> ''2024-01-01T12:07:00Z'']"
    by (simp add: example_configMap_def)
  have r1: "Parse example_rfc3339 (Format example_rfc3339 (example_ts + 500000000))
      = Inr example_ts"
    by code_simp
  have r2: "Parse example_rfc3339 (Format example_rfc3339 (example_ts + 1500000000))
      = Inr (example_ts + Second)"
    by code_simp
  have s1: "example_ts + 500000000 - (example_ts + 500000000) mod Second = example_ts"
    and s2: "example_ts + 1500000000 - (example_ts + 1500000000) mod Second
      = example_ts + Second"
    and whole: "example_ts mod Second = 0"
    by (simp_all add: example_ts_def Second_def)
  have roundtrip: "\<forall>T\<in>set [example_ts + 500000000, example_ts + 1500000000].
      Parse example_rfc3339 (Format example_rfc3339 T) = Inr (T - T mod Second)"
    using r1 r2 s1 s2 by simp
  have start: "watermark example_rfc3339 example_configMap = Some example_ts"
    by code_simp
  have ev: "example_ts - 1 = (if IsZero (e_EventTime (example_k8sEvent (example_ts - 1)))
       then e_LastTimestamp (example_k8sEvent (example_ts - 1))
       else e_EventTime (example_k8sEvent (example_ts - 1)))"
    by (simp add: example_k8sEvent_def IsZero_def zeroTime_def example_ts_def Second_def)
  have leader: "ec_isLeader (example_event_controller (example_ts + 2 * Second)) \<noteq> 0"
    and nonzero: "\<not> IsZero (example_ts - 1)"
    and before: "example_ts - 1 < ec_lastEventTime (example_event_controller (example_ts + 2 * Second))"
    by (simp_all add: example_event_controller_def IsZero_def zeroTime_def example_ts_def
        Second_def)
  note main = watermark_advances [OF data roundtrip ev,
      where ctrl = "example_event_controller (example_ts + 2 * Second)" and T = 0]
  note sequence = main [THEN conjunct2, THEN conjunct1]
  note restart = main [THEN conjunct2, THEN conjunct2, THEN conjunct1]
  from sequence obtain configMap' where loop:
    "pollConfigLoop example_rfc3339 [example_ts + 500000000, example_ts + 1500000000]
       example_configMap = Some configMap'"
    and reached: "\<forall>T\<in>set [example_ts + 500000000, example_ts + 1500000000].
       \<exists>w'. watermark example_rfc3339 configMap' = Some w' \<and> T - T mod Second \<le> w'"
    and mono: "\<forall>w. watermark example_rfc3339 example_configMap = Some w \<and> w mod Second = 0
       \<longrightarrow> (\<exists>w'. watermark example_rfc3339 configMap' = Some w' \<and> w \<le> w')"
    by (elim exE conjE)
  have member: "example_ts + 1500000000 \<in> set [example_ts + 500000000, example_ts + 1500000000]"
    by simp
  from reached [rule_format, OF member]
  obtain w' where w': "watermark example_rfc3339 configMap' = Some w'"
    "example_ts + 1500000000 - (example_ts + 1500000000) mod Second \<le> w'"
    by (elim exE conjE)
  from w'(2) have high: "example_ts + Second \<le> w'"
    unfolding s2 .
  from mono [rule_format, of example_ts] start whole
  obtain w'' where "watermark example_rfc3339 configMap' = Some w''" "example_ts \<le> w''"
    by auto
  with w'(1) have low: "example_ts \<le> w'"
    by simp
  from restart leader nonzero before
  have dropped: "he_Error (handleEvent (example_event_controller (example_ts + 2 * Second))
        (example_k8sEvent (example_ts - 1))) = Some ''BeforeRestart''
     \<and> he_updates (handleEvent (example_event_controller (example_ts + 2 * Second))
        (example_k8sEvent (example_ts - 1))) = []"
    by (elim impE conjE) simp_all
  have ev2: "example_ts + 500000000
       = (if IsZero (e_EventTime (example_k8sEvent (example_ts + 500000000)))
          then e_LastTimestamp (example_k8sEvent (example_ts + 500000000))
          else e_EventTime (example_k8sEvent (example_ts + 500000000)))"
    by (simp add: example_k8sEvent_def IsZero_def zeroTime_def example_ts_def Second_def)
  have fresh: "\<not> IsZero (example_ts + 500000000)"
    "ec_lastEventTime (example_event_controller (example_ts + 2 * Second))
       \<le> example_ts + 500000000"
    "Sub (ec_Now (example_event_controller (example_ts + 2 * Second)))
       (example_ts + 500000000) \<le> 5 * Minute"
    by (simp_all add: example_event_controller_def IsZero_def zeroTime_def example_ts_def
        Second_def Minute_def Sub_def minDuration_def maxDuration_def)
  note enqueue = watermark_advances [OF data roundtrip ev2,
      where ctrl = "example_event_controller (example_ts + 2 * Second)" and T = 0,
      THEN conjunct2, THEN conjunct2, THEN conjunct2, THEN conjunct2]
  from enqueue leader fresh
  have enqueued: "he_updates (handleEvent (example_event_controller (example_ts + 2 * Second))
        (example_k8sEvent (example_ts + 500000000))) = [example_ts + 500000000]"
    by (elim impE conjE) simp_all
  have found: "\<exists>configMap' w'.
         pollConfigLoop example_rfc3339 [example_ts + 500000000, example_ts + 1500000000]
           example_configMap = Some configMap'
         \<and> watermark example_rfc3339 configMap' = Some w'
         \<and> example_ts + Second \<le> w' \<and> example_ts \<le> w'"
    using loop w'(1) high low by (intro exI conjI)
  show ?thesis
    using data r1 r2 start found dropped enqueued by (intro conjI) (elim conjE, assumption)+
qed

section \<open>Properties of the transform visitors\<close>

text \<open>The visitors one after the other on a single span.\<close>

lemma removeZconstantKeys_filter:
  "removeZconstantKeys env tags = filter (\<lambda>tag. \<not> HasPrefix (kv_Key tag) (zPrefix env)) tags"
  by (induction tags) simp_all

lemma removeZconstantKeys_idem:
  "removeZconstantKeys env (removeZconstantKeys env tags) = removeZconstantKeys env tags"
  by (simp add: removeZconstantKeys_filter)

lemma firstTag_removeZconstantKeys:
  "firstTag k (removeZconstantKeys env tags)
     = (if HasPrefix k (zPrefix env) then None else firstTag k tags)"
  by (induction tags) auto

lemma PruneTags_Enter_idem:
  "PruneTags_Enter env b (PruneTags_Enter env b' span) = PruneTags_Enter env b' span"
  by (simp add: PruneTags_Enter_def removeZconstantKeys_idem comp_def)

lemma ReplaceName_Enter_idem:
  "ReplaceName_Enter env False (ReplaceName_Enter env False span)
     = ReplaceName_Enter env False span"
  by (simp add: ReplaceName_Enter_def split: option.splits)

lemma update_name_same:
  "(span\<lparr>s_OperationName := a\<rparr> = span) = (s_OperationName span = a)"
  by (cases span) auto

lemma settled_Enter_same: "settled env v (Enter env v False span)"
  by (cases v) (simp_all add: settled_def PruneTags_Enter_idem ReplaceName_Enter_idem)

lemma settled_Enter_other:
  assumes "settled env v span"
  shows "settled env v (Enter env v' False span)"
proof (cases v; cases v')
  assume "v = ReplaceNameVisitor" "v' = PruneTagsVisitor"
  with assms show ?thesis
    by (cases "firstTag (zSpanName env) (s_Tags span)")
      (auto simp add: settled_def ReplaceName_Enter_def PruneTags_Enter_def
        firstTag_removeZconstantKeys update_name_same)
next
  assume v: "v = PruneTagsVisitor" "v' = ReplaceNameVisitor"
  with assms have pruned: "PruneTags_Enter env False span = span"
    by (simp add: settled_def)
  have "PruneTags_Enter env False (span\<lparr>s_OperationName := a\<rparr>)
      = (PruneTags_Enter env False span)\<lparr>s_OperationName := a\<rparr>" for a
    by (simp add: PruneTags_Enter_def)
  then have "PruneTags_Enter env False (span\<lparr>s_OperationName := a\<rparr>)
      = span\<lparr>s_OperationName := a\<rparr>" for a
    by (simp add: pruned)
  with pruned v show ?thesis
    by (simp add: settled_def ReplaceName_Enter_def split: option.splits)
qed (use settled_Enter_same [of env ReplaceNameVisitor span]
      settled_Enter_same [of env PruneTagsVisitor span] in simp_all)

lemma settled_enterAll_keeps:
  "settled env v span \<Longrightarrow> settled env v (enterAll env steps False span)"
  by (induction steps arbitrary: span) (simp_all add: settled_Enter_other)

lemma settled_enterAll:
  "v \<in> set steps \<Longrightarrow> settled env v (enterAll env steps False span)"
proof (induction steps arbitrary: span)
  case Nil
  then show ?case by simp
next
  case (Cons u steps)
  show ?case
  proof (cases "v = u")
    case True
    then show ?thesis
      by (simp add: settled_enterAll_keeps settled_Enter_same)
  next
    case False
    with Cons show ?thesis by simp
  qed
qed

lemma enterAll_settled:
  "\<forall>v\<in>set steps. settled env v span \<Longrightarrow> enterAll env steps False span = span"
  by (induction steps) (simp_all add: settled_def)

lemma enterAll_idem:
  "enterAll env steps False (enterAll env steps False span) = enterAll env steps False span"
  by (rule enterAll_settled) (simp add: settled_enterAll)

text \<open>Apart from the operation name, a visitor does the same to the root as to any span.\<close>

lemma clearName_Enter:
  "clearName (Enter env v b span) = clearName (Enter env v False (clearName span))"
  by (cases v)
    (simp_all add: clearName_def ReplaceName_Enter_def PruneTags_Enter_def split: option.splits)

lemma clearName_enterAll:
  "clearName (enterAll env steps b span) = clearName (enterAll env steps False (clearName span))"
proof (induction steps arbitrary: span b)
  case Nil
  show ?case by (simp add: clearName_def)
next
  case (Cons v steps)
  have "clearName (enterAll env (v # steps) b span)
      = clearName (enterAll env steps False (clearName (Enter env v b span)))"
    using Cons.IH [of b "Enter env v b span"] by simp
  also have "\<dots> = clearName (enterAll env steps False
      (clearName (Enter env v False (clearName span))))"
    by (simp add: clearName_Enter [of env v b span])
  also have "\<dots> = clearName (enterAll env steps False (Enter env v False (clearName span)))"
    using Cons.IH [of False "Enter env v False (clearName span)"] by simp
  finally show ?case by simp
qed

lemma clearName_enterAll_twice:
  "clearName (enterAll env steps True (enterAll env steps True span))
     = clearName (enterAll env steps True span)"
proof -
  have "clearName (enterAll env steps True (enterAll env steps True span))
      = clearName (enterAll env steps False (clearName (enterAll env steps True span)))"
    by (rule clearName_enterAll)
  also have "\<dots> = clearName (enterAll env steps False
      (clearName (enterAll env steps False (clearName span))))"
    by (simp add: clearName_enterAll [of env steps True span])
  also have "\<dots> = clearName (enterAll env steps False (enterAll env steps False (clearName span)))"
    by (simp add: clearName_enterAll [of env steps False "enterAll env steps False (clearName span)", symmetric])
  also have "\<dots> = clearName (enterAll env steps False (clearName span))"
    by (simp add: enterAll_idem)
  also have "\<dots> = clearName (enterAll env steps True span)"
    by (simp add: clearName_enterAll [of env steps True span])
  finally show ?thesis .
qed

text \<open>The walks of a pipeline, span by span.\<close>

lemma visitChild_twice:
  "visitChild f (visitChild g tree) = visitChild (\<lambda>b span. f b (g b span)) tree"
  by (induction tree) simp

lemma visitChild_cong:
  "(\<And>span. f False span = g False span) \<Longrightarrow> visitChild f tree = visitChild g tree"
  by (induction tree) simp

lemma pipeline_Node:
  "pipeline env steps (Node span children)
     = Node (enterAll env steps True span) (map (visitChild (enterAll env steps)) children)"
proof (induction steps arbitrary: span children)
  case Nil
  have "visitChild (\<lambda>b span. span) tree = tree" for tree
    by (induction tree) (simp add: map_idI)
  moreover have "enterAll env [] = (\<lambda>b span. span)"
    by (intro ext) simp
  ultimately show ?case
    by (simp add: map_idI)
next
  case (Cons v steps)
  have step: "visitChild (enterAll env steps) (visitChild (Enter env v) tree)
      = visitChild (enterAll env (v # steps)) tree" for tree
    unfolding visitChild_twice by (rule visitChild_cong) simp
  have "pipeline env (v # steps) (Node span children)
      = pipeline env steps
          (Node (Enter env v True span) (map (visitChild (Enter env v)) children))"
    by simp
  also have "\<dots> = Node (enterAll env steps True (Enter env v True span))
      (map (visitChild (enterAll env steps)) (map (visitChild (Enter env v)) children))"
    by (rule Cons.IH)
  also have "map (visitChild (enterAll env steps)) (map (visitChild (Enter env v)) children)
      = map (visitChild (enterAll env (v # steps))) children"
    unfolding map_map comp_def step ..
  also have "Node (enterAll env steps True (Enter env v True span))
        (map (visitChild (enterAll env (v # steps))) children)
      = Node (enterAll env (v # steps) True span)
        (map (visitChild (enterAll env (v # steps))) children)"
    by (simp only: enterAll.simps)
  finally show ?case .
qed

lemma visitChild_enterAll_idem:
  "visitChild (enterAll env steps) (visitChild (enterAll env steps) tree)
     = visitChild (enterAll env steps) tree"
  unfolding visitChild_twice by (rule visitChild_cong) (simp add: enterAll_idem)

text \<open>
  Claim C3, amended. Applying a pipeline of \<open>ReplaceName\<close> and \<open>PruneTags\<close> visitors
  twice to a span tree gives the same tree as applying it once, except for the operation
  name of the root span: every other operation name, every tag and every log field is
  the same.
\<close>

theorem pipeline_idempotent_but_root_name:
  "clearRootName (pipeline env steps (pipeline env steps tree))
     = clearRootName (pipeline env steps tree)"
proof (cases tree)
  case (Node span children)
  have "clearRootName (pipeline env steps (pipeline env steps tree))
      = Node (clearName (enterAll env steps True (enterAll env steps True span)))
          (map (\<lambda>child. visitChild (enterAll env steps) (visitChild (enterAll env steps) child))
             children)"
    by (simp add: Node pipeline_Node clearName_def comp_def)
  also have "\<dots> = Node (clearName (enterAll env steps True span))
          (map (visitChild (enterAll env steps)) children)"
    by (simp add: clearName_enterAll_twice visitChild_enterAll_idem)
  also have "\<dots> = clearRootName (pipeline env steps tree)"
    by (simp add: Node pipeline_Node clearName_def)
  finally show ?thesis .
qed

text \<open>
  Claim C3 as stated fails on the tree of a single span without tags: the first
  application names the root \<open>pods / 12:07..12:37\<close>, and the second appends the time
  range once more.
\<close>

theorem pipeline_not_idempotent_counterexample:
  "pipeline example_tf [ReplaceNameVisitor, PruneTagsVisitor]
     (pipeline example_tf [ReplaceNameVisitor, PruneTagsVisitor] example_tree)
   \<noteq> pipeline example_tf [ReplaceNameVisitor, PruneTagsVisitor] example_tree
   \<and> rootName (pipeline example_tf [ReplaceNameVisitor, PruneTagsVisitor] example_tree)
       = ''pods / 12:07..12:37''
   \<and> rootName (pipeline example_tf [ReplaceNameVisitor, PruneTagsVisitor]
        (pipeline example_tf [ReplaceNameVisitor, PruneTagsVisitor] example_tree))
       = ''pods / 12:07..12:37 / 12:07..12:37''"
  by code_simp

end
